theory Spec2Isabelle
  imports Main "HOL-Library.Word"
begin

section \<open>Connection descriptor and endpoint strings\<close>

text \<open>
  The embedding follows \<^verbatim>\<open>enchannel-zmq-backend-6/index.ts\<close> and
  \<^verbatim>\<open>enchannelJMPConnection.ts\<close>.  \<^verbatim>\<open>ChannelName\<close> is the union type of
  line 14, \<^verbatim>\<open>JupyterConnectionInfo\<close> the interface of lines 17-28.

  A port is a JavaScript number or absent (\<open>None\<close>).  A number is \<open>NaN\<close>; or an
  integer of magnitude below \<open>2^53\<close>, kept as sign and magnitude (a double holds each
  of these exactly, a template literal prints it in full decimal, and \<open>SafeInteger True 0\<close>
  is the negative zero); or any other number (fractional, of larger magnitude,
  infinite), which is never falsy and is kept as the text that a template literal
  prints for it, \<^verbatim>\<open>1e+21\<close> for instance.
\<close>

datatype jsnumber = NaN | SafeInteger bool "53 word" | OtherNumber string

datatype ChannelName = Iopub | Stdin | Shell | Control

fun channelString :: "ChannelName \<Rightarrow> string" where
  "channelString Iopub = ''iopub''"
| "channelString Stdin = ''stdin''"
| "channelString Shell = ''shell''"
| "channelString Control = ''control''"

datatype transport = Tcp | Ipc

fun transportString :: "transport \<Rightarrow> string" where
  "transportString Tcp = ''tcp''"
| "transportString Ipc = ''ipc''"

record JupyterConnectionInfo =
  version :: int
  iopub_port :: "jsnumber option"
  shell_port :: "jsnumber option"
  stdin_port :: "jsnumber option"
  control_port :: "jsnumber option"
  signature_scheme :: string
  hb_port :: "jsnumber option"
  ip :: string
  key :: string
  transport :: transport

datatype js_error = Error string | SocketError

text \<open>Decimal rendering of a natural number.\<close>

definition digitChar :: "nat \<Rightarrow> char" where
  "digitChar d = ''0123456789'' ! d"

function numberToString :: "nat \<Rightarrow> string" where
  "numberToString n =
     (if n < 10 then [digitChar n] else numberToString (n div 10) @ [digitChar (n mod 10)])"
  by pat_completeness auto
termination
  by (relation "measure id") auto

declare numberToString.simps [simp del]

text \<open>\<^verbatim>\<open>`${port}`\<close> for a number; the negative zero prints as \<open>0\<close>.\<close>

fun numberString :: "jsnumber \<Rightarrow> string" where
  "numberString NaN = ''NaN''"
| "numberString (SafeInteger negative magnitude) =
     (if negative \<and> magnitude \<noteq> 0 then ''-'' else []) @ numberToString (unat magnitude)"
| "numberString (OtherNumber text) = text"

text \<open>\<^verbatim>\<open>config[`${channel}_port`]\<close>\<close>

fun channelPort :: "JupyterConnectionInfo \<Rightarrow> ChannelName \<Rightarrow> jsnumber option" where
  "channelPort config Iopub = iopub_port config"
| "channelPort config Stdin = stdin_port config"
| "channelPort config Shell = shell_port config"
| "channelPort config Control = control_port config"

text \<open>\<^verbatim>\<open>!port\<close>: the port is absent, NaN, or a zero.\<close>

fun falsyNumber :: "jsnumber \<Rightarrow> bool" where
  "falsyNumber NaN = True"
| "falsyNumber (SafeInteger negative magnitude) = (magnitude = 0)"
| "falsyNumber (OtherNumber text) = False"

definition falsyPort :: "jsnumber option \<Rightarrow> bool" where
  "falsyPort p = (case p of None \<Rightarrow> True | Some n \<Rightarrow> falsyNumber n)"

text \<open>\<^verbatim>\<open>`${port}`\<close>\<close>

definition portString :: "jsnumber option \<Rightarrow> string" where
  "portString p = (case p of None \<Rightarrow> ''undefined'' | Some n \<Rightarrow> numberString n)"

definition formConnectionString :: "JupyterConnectionInfo \<Rightarrow> ChannelName \<Rightarrow> js_error + string" where
  "formConnectionString config channel =
     (let portDelimiter = (if transport config = Tcp then '':'' else ''-'');
          port = channelPort config channel
      in if falsyPort port
         then Inl (Error (''Port not found for channel \"'' @ channelString channel @ ''\"''))
         else Inr (transportString (transport config) @ ''://'' @ ip config @ portDelimiter
                   @ portString port))"

section \<open>Sockets and the batch creation\<close>

text \<open>
  The zeromq library is external.  A socket is an entry of a socket table in the
  world state; the table records what the program did to it: the endpoints it was
  bound to, the iopub subscriptions, every call of \<^verbatim>\<open>close\<close> and every call of
  \<^verbatim>\<open>send\<close>.  Whether a bind fails is decided by the environment.  Following the
  type import of line 11, a \<^verbatim>\<open>Dealer\<close> has a \<^verbatim>\<open>send\<close> method and a
  \<^verbatim>\<open>Subscriber\<close> has none; both have \<^verbatim>\<open>close\<close>.
\<close>

datatype socketKind = Dealer | Subscriber

type_synonym frames = "string list"

record zsocket =
  kind :: socketKind
  routingId :: "string option"
  boundTo :: "string list"
  subscriptions :: "string list"
  closeCalls :: nat
  sendCalls :: "frames list"

datatype jsval = JUndefined | JNull | JBool bool | JNum int | JStr string
  | JArr "jsval list" | JRef nat

type_synonym jsobject = "string \<rightharpoonup> jsval"

text \<open>
  The message a caller pushes (\<^verbatim>\<open>JupyterMessage\<close> of @nteract/messaging, as the code
  reads it): \<open>channel\<close> is a string or missing, \<open>header\<close> a reference to a header
  object or missing, the remaining fields are passed on untouched.  \<open>extra\<close> holds
  whatever further own properties the object has at run time; the code reads none.
\<close>

record JupyterMessage =
  header :: "nat option"
  parent_header :: jsval
  content :: jsval
  metadata :: jsval
  buffers :: jsval
  channel :: "string option"
  extra :: jsobject

text \<open>\<^verbatim>\<open>wireProtocol.RawJupyterMessage\<close>, the object literal of lines 175-183.\<close>

record RawJupyterMessage =
  raw_header :: nat
  raw_parent_header :: jsval
  raw_content :: jsval
  raw_metadata :: jsval
  raw_buffers :: jsval
  raw_idents :: "jsval list"

record HeaderFiller =
  session :: string
  username :: string

datatype logEntry =
    Warn string "nat option"
  | TraceError string js_error nat

text \<open>
  The world: the socket table, the heap of message objects, the heap of header
  objects (both indexed by reference; \<open>headerCount\<close> is the next free header
  reference), the log, and the messages handed to the subscribed handlers.
\<close>

record world =
  socketTable :: "nat \<Rightarrow> zsocket"
  socketCount :: nat
  messageHeap :: "nat \<Rightarrow> JupyterMessage"
  headerHeap :: "nat \<Rightarrow> jsobject"
  headerCount :: nat
  consoleLog :: "logEntry list"
  delivered :: "(nat \<times> jsobject) list"

record environment =
  bindFails :: "nat \<Rightarrow> string \<Rightarrow> bool"
  sendFails :: "nat \<Rightarrow> frames \<Rightarrow> js_error option"
  uuid :: string
  processEnv :: "string \<rightharpoonup> string"

text \<open>\<^verbatim>\<open>new zmq.Dealer({routingId})\<close>, \<^verbatim>\<open>new zmq.Subscriber()\<close>\<close>

definition newSocket :: "socketKind \<Rightarrow> string option \<Rightarrow> world \<Rightarrow> nat \<times> world" where
  "newSocket k rid w =
     (socketCount w,
      w\<lparr>socketTable := (socketTable w)(socketCount w :=
            \<lparr>kind = k, routingId = rid, boundTo = [], subscriptions = [],
             closeCalls = 0, sendCalls = []\<rparr>),
        socketCount := Suc (socketCount w)\<rparr>)"

definition updSocket :: "nat \<Rightarrow> (zsocket \<Rightarrow> zsocket) \<Rightarrow> world \<Rightarrow> world" where
  "updSocket s f w = w\<lparr>socketTable := (socketTable w)(s := f (socketTable w s))\<rparr>"

text \<open>\<^verbatim>\<open>await socket.bind(url)\<close>\<close>

definition bind :: "environment \<Rightarrow> nat \<Rightarrow> string \<Rightarrow> world \<Rightarrow> (js_error + unit) \<times> world" where
  "bind env s url w =
     (if bindFails env s url then (Inl SocketError, w)
      else (Inr (), updSocket s (\<lambda>z. z\<lparr>boundTo := boundTo z @ [url]\<rparr>) w))"

definition createSubscriber ::
  "environment \<Rightarrow> ChannelName \<Rightarrow> JupyterConnectionInfo \<Rightarrow> world \<Rightarrow> (js_error + nat) \<times> world" where
  "createSubscriber env chan config w =
     (let (socket, w1) = newSocket Subscriber None w
      in case formConnectionString config chan of
           Inl e \<Rightarrow> (Inl e, w1)
         | Inr url \<Rightarrow>
             (case bind env socket url w1 of
                (Inl e, w2) \<Rightarrow> (Inl e, w2)
              | (Inr _, w2) \<Rightarrow> (Inr socket, w2)))"

definition createDealer ::
  "environment \<Rightarrow> ChannelName \<Rightarrow> string \<Rightarrow> JupyterConnectionInfo \<Rightarrow> world \<Rightarrow> (js_error + nat) \<times> world" where
  "createDealer env chan identity config w =
     (let (socket, w1) = newSocket Dealer (Some identity) w
      in case formConnectionString config chan of
           Inl e \<Rightarrow> (Inl e, w1)
         | Inr url \<Rightarrow>
             (case bind env socket url w1 of
                (Inl e, w2) \<Rightarrow> (Inl e, w2)
              | (Inr _, w2) \<Rightarrow> (Inr socket, w2)))"

text \<open>\<^verbatim>\<open>process.env.LOGNAME || process.env.USER || ... || 'username'\<close>\<close>

definition getUsername :: "environment \<Rightarrow> string" where
  "getUsername env =
     (case processEnv env ''LOGNAME'' of
        Some (c # cs) \<Rightarrow> c # cs
      | _ \<Rightarrow>
     (case processEnv env ''USER'' of
        Some (c # cs) \<Rightarrow> c # cs
      | _ \<Rightarrow>
     (case processEnv env ''LNAME'' of
        Some (c # cs) \<Rightarrow> c # cs
      | _ \<Rightarrow>
     (case processEnv env ''USERNAME'' of
        Some (c # cs) \<Rightarrow> c # cs
      | _ \<Rightarrow> ''username''))))"

text \<open>
  \<^verbatim>\<open>Promise.all\<close> over the four creations.  All four run to their end whatever the
  others do.  When some reject, the promise rejects with the earliest rejection: an
  error thrown by \<^verbatim>\<open>formConnectionString\<close> (in the continuation that follows
  \<^verbatim>\<open>await require\<close>, in array order), before any bind has settled; otherwise a bind
  error.
\<close>

fun firstThrown :: "(js_error + 'a) list \<Rightarrow> js_error option" where
  "firstThrown [] = None"
| "firstThrown (Inl (Error m) # rs) = Some (Error m)"
| "firstThrown (r # rs) = firstThrown rs"

fun promiseAll4 ::
  "(js_error + 'a) \<Rightarrow> (js_error + 'a) \<Rightarrow> (js_error + 'a) \<Rightarrow> (js_error + 'a)
   \<Rightarrow> js_error + ('a \<times> 'a \<times> 'a \<times> 'a)" where
  "promiseAll4 (Inr a) (Inr b) (Inr c) (Inr d) = Inr (a, b, c, d)"
| "promiseAll4 r1 r2 r3 r4 =
     (case firstThrown [r1, r2, r3, r4] of Some e \<Rightarrow> Inl e | None \<Rightarrow> Inl SocketError)"

text \<open>The Socket Set: the own properties of the returned object, in insertion order.\<close>

type_synonym socketSet = "(string \<times> nat) list"

definition createSockets ::
  "environment \<Rightarrow> JupyterConnectionInfo \<Rightarrow> string \<Rightarrow> string \<Rightarrow> world
   \<Rightarrow> (js_error + socketSet) \<times> world" where
  "createSockets env config subscription identity w =
     (let (r1, w1) = createDealer env Shell identity config w;
          (r2, w2) = createDealer env Control identity config w1;
          (r3, w3) = createDealer env Stdin identity config w2;
          (r4, w4) = createSubscriber env Iopub config w3
      in case promiseAll4 r1 r2 r3 r4 of
           Inl e \<Rightarrow> (Inl e, w4)
         | Inr (shell, control, stdin, iopub) \<Rightarrow>
             (Inr [(''shell'', shell), (''control'', control), (''stdin'', stdin), (''iopub'', iopub)],
              updSocket iopub (\<lambda>z. z\<lparr>subscriptions := subscriptions z @ [subscription]\<rparr>) w4))"

section \<open>The multiplexed channel\<close>

text \<open>
  \<^verbatim>\<open>sockets[name]\<close> reads a property of an ordinary object: an own property if there
  is one, otherwise the member of \<^verbatim>\<open>Object.prototype\<close> of that name, otherwise
  \<^verbatim>\<open>undefined\<close> (\<open>None\<close>).  The inherited members are functions, and
  \<^verbatim>\<open>__proto__\<close> is the prototype object itself: all are truthy, none has a
  \<^verbatim>\<open>send\<close> or a \<^verbatim>\<open>close\<close> property.
\<close>

definition objectPrototypeKeys :: "string list" where
  "objectPrototypeKeys =
     [''constructor'', ''__defineGetter__'', ''__defineSetter__'', ''hasOwnProperty'',
      ''__lookupGetter__'', ''__lookupSetter__'', ''isPrototypeOf'', ''propertyIsEnumerable'',
      ''toString'', ''valueOf'', ''__proto__'', ''toLocaleString'']"

datatype socketValue = SocketObj nat | PrototypeMember string

definition lookupSocket :: "socketSet \<Rightarrow> string \<Rightarrow> socketValue option" where
  "lookupSocket sockets name =
     (case map_of sockets name of
        Some s \<Rightarrow> Some (SocketObj s)
      | None \<Rightarrow> if name \<in> set objectPrototypeKeys then Some (PrototypeMember name) else None)"

text \<open>\<^verbatim>\<open>(socket as any).send !== undefined\<close>: the socket to send on, if there is one.\<close>

fun sendTarget :: "world \<Rightarrow> socketValue \<Rightarrow> nat option" where
  "sendTarget w (SocketObj s) = (if kind (socketTable w s) = Dealer then Some s else None)"
| "sendTarget w (PrototypeMember m) = None"

text \<open>
  The codec of @nteract/messaging is external: both functions are parameters and both
  may throw.  \<open>encode\<close> reads the wire message and the header objects.
\<close>

record wireProtocol =
  encode :: "(nat \<Rightarrow> jsobject) \<Rightarrow> RawJupyterMessage \<Rightarrow> js_error + frames"
  decode :: "jsobject \<Rightarrow> js_error + jsobject"

text \<open>\<^verbatim>\<open>await socket.send(frames)\<close>; the call is recorded whether or not it fails.\<close>

definition send :: "environment \<Rightarrow> nat \<Rightarrow> frames \<Rightarrow> world \<Rightarrow> (js_error + unit) \<times> world" where
  "send env s fr w =
     (let w1 = updSocket s (\<lambda>z. z\<lparr>sendCalls := sendCalls z @ [fr]\<rparr>) w
      in case sendFails env s fr of Some e \<Rightarrow> (Inl e, w1) | None \<Rightarrow> (Inr (), w1))"

text \<open>
  \<^verbatim>\<open>{ ...message.header, ...header }\<close> (line 177): a new object, holding the own
  properties of the message's header (none when it is missing), then \<open>session\<close> and
  \<open>username\<close> of the filler.
\<close>

definition foldHeader :: "HeaderFiller \<Rightarrow> nat option \<Rightarrow> world \<Rightarrow> nat \<times> world" where
  "foldHeader filler msgHeader w =
     (let spread = (case msgHeader of None \<Rightarrow> Map.empty | Some a \<Rightarrow> headerHeap w a);
          obj = spread ++ [''session'' \<mapsto> JStr (session filler), ''username'' \<mapsto> JStr (username filler)]
      in (headerCount w,
          w\<lparr>headerHeap := (headerHeap w)(headerCount w := obj),
            headerCount := Suc (headerCount w)\<rparr>))"

text \<open>The wire message of lines 175-183.\<close>

definition jMessageOf :: "HeaderFiller \<Rightarrow> nat \<Rightarrow> world \<Rightarrow> RawJupyterMessage \<times> world" where
  "jMessageOf filler m w =
     (let message = messageHeap w m;
          (h, w1) = foldHeader filler (header message) w
      in (\<lparr>raw_header = h,
           raw_parent_header = parent_header message,
           raw_content = content message,
           raw_metadata = metadata message,
           raw_buffers = buffers message,
           raw_idents = []\<rparr>, w1))"

text \<open>The body of the \<^verbatim>\<open>try\<close> block, lines 175-186.\<close>

definition trySend ::
  "environment \<Rightarrow> wireProtocol \<Rightarrow> socketValue \<Rightarrow> HeaderFiller \<Rightarrow> nat \<Rightarrow> world
   \<Rightarrow> (js_error + unit) \<times> world" where
  "trySend env wp socket filler m w =
     (let (jMessage, w1) = jMessageOf filler m w
      in case sendTarget w1 socket of
           None \<Rightarrow> (Inr (), w1)
         | Some s \<Rightarrow>
             (case encode wp (headerHeap w1) jMessage of
                Inl e \<Rightarrow> (Inl e, w1)
              | Inr fr \<Rightarrow> send env s fr w1))"

definition warn :: "string \<Rightarrow> nat option \<Rightarrow> world \<Rightarrow> world" where
  "warn text message w = w\<lparr>consoleLog := consoleLog w @ [Warn text message]\<rparr>"

definition traceError :: "string \<Rightarrow> js_error \<Rightarrow> nat \<Rightarrow> world \<Rightarrow> world" where
  "traceError text err m w = w\<lparr>consoleLog := consoleLog w @ [TraceError text err m]\<rparr>"

text \<open>
  The \<^verbatim>\<open>next\<close> callback of \<^verbatim>\<open>outgoingMessages\<close>, lines 160-190.  It is an
  \<^verbatim>\<open>async\<close> function: what it throws would reject the promise it returns.  One call
  is one step of the model, the awaited send included.
\<close>

datatype promiseState = Fulfilled | Rejected js_error

definition outgoingMessages ::
  "environment \<Rightarrow> wireProtocol \<Rightarrow> socketSet \<Rightarrow> HeaderFiller \<Rightarrow> nat option \<Rightarrow> world
   \<Rightarrow> promiseState \<times> world" where
  "outgoingMessages env wp sockets filler message w =
     (case message of
        None \<Rightarrow> (Fulfilled, warn ''message sent without a channel'' message w)
      | Some m \<Rightarrow>
          (case channel (messageHeap w m) of
             None \<Rightarrow> (Fulfilled, warn ''message sent without a channel'' message w)
           | Some ch \<Rightarrow>
               if ch = [] then (Fulfilled, warn ''message sent without a channel'' message w)
               else (case lookupSocket sockets ch of
                       None \<Rightarrow> (Fulfilled, warn ''channel not understood for message'' message w)
                     | Some socket \<Rightarrow>
                         (case trySend env wp socket filler m w of
                            (Inl err, w1) \<Rightarrow> (Fulfilled, traceError ''Error sending message'' err m w1)
                          | (Inr _, w1) \<Rightarrow> (Fulfilled, w1)))))"

text \<open>The completion callback, lines 192-200: \<^verbatim>\<open>Object.keys(sockets).forEach\<close>.\<close>

definition closeSockets :: "socketSet \<Rightarrow> world \<Rightarrow> world" where
  "closeSockets sockets w =
     fold (\<lambda>name w'. case map_of sockets name of
                        Some s \<Rightarrow> updSocket s (\<lambda>z. z\<lparr>closeCalls := Suc (closeCalls z)\<rparr>) w'
                      | None \<Rightarrow> w')
          (map fst sockets) w"

text \<open>
  The \<^verbatim>\<open>map\<close> function of lines 216-223 for the socket under key \<open>name\<close>: \<open>body\<close>
  holds the own enumerable properties of the event's payload.
\<close>

definition incomingMessage :: "wireProtocol \<Rightarrow> string \<Rightarrow> jsobject \<Rightarrow> js_error + jsobject" where
  "incomingMessage wp name body =
     (let msg = body(''channel'' \<mapsto> JStr name);
          msg' = msg(''idents'' := None)
      in decode wp msg')"

text \<open>
  The subject returned by \<^verbatim>\<open>rxjs.Subject.create(outgoingMessages, incomingMessages)\<close>.
  rxjs is external; the model keeps what rxjs 6 keeps: the \<open>isStopped\<close> flag of the
  destination subscriber, the \<open>closed\<close> flag of the subject, the handlers subscribed
  to the merged source, and the error that ended the source, if any.
  \<^item> \<^verbatim>\<open>next(v)\<close> of the subject calls \<^verbatim>\<open>destination.next(v)\<close>, which runs the callback
    unless the destination is stopped; the promise the callback returns is dropped.
  \<^item> \<^verbatim>\<open>complete()\<close> calls \<^verbatim>\<open>destination.complete()\<close>, which runs the completion
    callback once and stops the destination.
  \<^item> \<^verbatim>\<open>unsubscribe()\<close> is \<^verbatim>\<open>Subject.prototype.unsubscribe\<close>: it sets the flags of
    the subject and touches neither the destination nor the source.
  \<^item> \<^verbatim>\<open>subscribe(h)\<close> subscribes \<open>h\<close> to the source; the listeners on the sockets
    exist while there is a subscriber.
  \<^item> an error thrown in \<^verbatim>\<open>map\<close> ends the source for every subscriber.
\<close>

record Channels =
  sockets :: socketSet
  headerFiller :: HeaderFiller
  destinationStopped :: bool
  closed :: bool
  observers :: "nat list"
  sourceError :: "js_error option"

definition createMainChannelFromSockets :: "socketSet \<Rightarrow> HeaderFiller \<Rightarrow> Channels" where
  "createMainChannelFromSockets ss filler =
     \<lparr>sockets = ss, headerFiller = filler, destinationStopped = False, closed = False,
      observers = [], sourceError = None\<rparr>"

definition subject_next ::
  "environment \<Rightarrow> wireProtocol \<Rightarrow> nat option \<Rightarrow> Channels \<Rightarrow> world \<Rightarrow> Channels \<times> world" where
  "subject_next env wp message ch w =
     (if destinationStopped ch then (ch, w)
      else (ch, snd (outgoingMessages env wp (sockets ch) (headerFiller ch) message w)))"

definition subject_complete :: "Channels \<Rightarrow> world \<Rightarrow> Channels \<times> world" where
  "subject_complete ch w =
     (if destinationStopped ch then (ch, w)
      else (ch\<lparr>destinationStopped := True\<rparr>, closeSockets (sockets ch) w))"

definition subject_unsubscribe :: "Channels \<Rightarrow> world \<Rightarrow> Channels \<times> world" where
  "subject_unsubscribe ch w = (ch\<lparr>closed := True\<rparr>, w)"

definition subject_subscribe :: "nat \<Rightarrow> Channels \<Rightarrow> Channels" where
  "subject_subscribe handler ch =
     (case sourceError ch of
        Some e \<Rightarrow> ch
      | None \<Rightarrow> ch\<lparr>observers := observers ch @ [handler]\<rparr>)"

text \<open>The socket under key \<open>name\<close> emits a \<^verbatim>\<open>message\<close> event with payload \<open>body\<close>.\<close>

definition socketEvent ::
  "wireProtocol \<Rightarrow> string \<Rightarrow> jsobject \<Rightarrow> Channels \<Rightarrow> world \<Rightarrow> Channels \<times> world" where
  "socketEvent wp name body ch w =
     (if map_of (sockets ch) name = None \<or> observers ch = [] then (ch, w)
      else case incomingMessage wp name body of
             Inl e \<Rightarrow> (ch\<lparr>observers := [], sourceError := Some e\<rparr>, w)
           | Inr msg \<Rightarrow> (ch, w\<lparr>delivered := delivered w @ map (\<lambda>h. (h, msg)) (observers ch)\<rparr>))"

fun socketEvents ::
  "wireProtocol \<Rightarrow> (string \<times> jsobject) list \<Rightarrow> Channels \<Rightarrow> world \<Rightarrow> Channels \<times> world" where
  "socketEvents wp [] ch w = (ch, w)"
| "socketEvents wp ((name, body) # evs) ch w =
     (case socketEvent wp name body ch w of (ch1, w1) \<Rightarrow> socketEvents wp evs ch1 w1)"

definition createMainChannel ::
  "environment \<Rightarrow> JupyterConnectionInfo \<Rightarrow> string \<Rightarrow> string \<Rightarrow> HeaderFiller \<Rightarrow> world
   \<Rightarrow> (js_error + Channels) \<times> world" where
  "createMainChannel env config subscription identity filler w =
     (case createSockets env config subscription identity w of
        (Inl e, w1) \<Rightarrow> (Inl e, w1)
      | (Inr ss, w1) \<Rightarrow> (Inr (createMainChannelFromSockets ss filler), w1))"

section \<open>The connection class\<close>

record EnchannelJMPConnection =
  mainChannel :: "Channels option"

text \<open>
  \<^verbatim>\<open>createMainChannel(connectInfo, undefined, sessionID)\<close>: the subscription is the
  default \<^verbatim>\<open>''\<close>, the header filler the default
  \<^verbatim>\<open>{ session: uuid(), username: getUsername() }\<close>.
\<close>

definition connect ::
  "environment \<Rightarrow> JupyterConnectionInfo \<Rightarrow> string \<Rightarrow> EnchannelJMPConnection \<Rightarrow> world
   \<Rightarrow> (js_error + unit) \<times> EnchannelJMPConnection \<times> world" where
  "connect env connectInfo sessionID conn w =
     (case createMainChannel env connectInfo [] sessionID
             \<lparr>session = uuid env, username = getUsername env\<rparr> w of
        (Inl e, w1) \<Rightarrow> (Inl e, conn, w1)
      | (Inr ch, w1) \<Rightarrow> (Inr (), conn\<lparr>mainChannel := Some ch\<rparr>, w1))"

definition sendMessage ::
  "environment \<Rightarrow> wireProtocol \<Rightarrow> nat \<Rightarrow> EnchannelJMPConnection \<Rightarrow> world
   \<Rightarrow> EnchannelJMPConnection \<times> world" where
  "sendMessage env wp message conn w =
     (case mainChannel conn of
        None \<Rightarrow> (conn, w)
      | Some ch \<Rightarrow>
          (case subject_next env wp (Some message) ch w of
             (ch1, w1) \<Rightarrow> (conn\<lparr>mainChannel := Some ch1\<rparr>, w1)))"

definition subscribe :: "nat \<Rightarrow> EnchannelJMPConnection \<Rightarrow> EnchannelJMPConnection" where
  "subscribe handlerFunc conn =
     (case mainChannel conn of
        None \<Rightarrow> conn
      | Some ch \<Rightarrow> conn\<lparr>mainChannel := Some (subject_subscribe handlerFunc ch)\<rparr>)"

definition dispose :: "EnchannelJMPConnection \<Rightarrow> world \<Rightarrow> EnchannelJMPConnection \<times> world" where
  "dispose conn w =
     (case mainChannel conn of
        None \<Rightarrow> (conn, w)
      | Some ch \<Rightarrow>
          (case subject_unsubscribe ch w of
             (ch1, w1) \<Rightarrow> (conn\<lparr>mainChannel := Some ch1\<rparr>, w1)))"

section \<open>Sequences of calls and sample inputs\<close>

fun sendMessages ::
  "environment \<Rightarrow> wireProtocol \<Rightarrow> nat list \<Rightarrow> EnchannelJMPConnection \<Rightarrow> world
   \<Rightarrow> EnchannelJMPConnection \<times> world" where
  "sendMessages env wp [] conn w = (conn, w)"
| "sendMessages env wp (m # ms) conn w =
     (case sendMessage env wp m conn w of (conn1, w1) \<Rightarrow> sendMessages env wp ms conn1 w1)"

text \<open>One of the four creations of the batch fails: the one that gets socket \<open>s\<close>.\<close>

definition creationFails :: "environment \<Rightarrow> JupyterConnectionInfo \<Rightarrow> nat \<Rightarrow> ChannelName \<Rightarrow> bool" where
  "creationFails env config s chan =
     (case formConnectionString config chan of
        Inl e \<Rightarrow> True
      | Inr url \<Rightarrow> bindFails env s url)"

text \<open>
  The inbound path as the specification words it: decode the raw frame, then stamp
  the result with the channel and remove \<open>idents\<close>.
\<close>

definition spec_incomingMessage :: "wireProtocol \<Rightarrow> string \<Rightarrow> jsobject \<Rightarrow> js_error + jsobject" where
  "spec_incomingMessage wp name body =
     (case decode wp body of
        Inl e \<Rightarrow> Inl e
      | Inr m \<Rightarrow> Inr ((m(''channel'' \<mapsto> JStr name))(''idents'' := None)))"

text \<open>
  What the text of a port has to be, said without the rendering function: a decimal
  numeral has digits only, no leading zero unless it is \<open>0\<close>, and reads back to the
  number; a negative integer has a minus sign in front.
\<close>

definition digitValue :: "char \<Rightarrow> nat" where
  "digitValue c = of_char c - 48"

definition decimalValue :: "string \<Rightarrow> nat" where
  "decimalValue ds = foldl (\<lambda>a c. 10 * a + digitValue c) 0 ds"

definition decimalNumeral :: "nat \<Rightarrow> string \<Rightarrow> bool" where
  "decimalNumeral n ds \<longleftrightarrow>
     ds \<noteq> [] \<and> list_all (\<lambda>c. c \<in> set ''0123456789'') ds
     \<and> (ds = ''0'' \<or> hd ds \<noteq> CHR ''0'') \<and> decimalValue ds = n"

fun portText :: "jsnumber \<Rightarrow> string \<Rightarrow> bool" where
  "portText NaN t = (t = ''NaN'')"
| "portText (SafeInteger negative magnitude) t =
     (if negative \<and> magnitude \<noteq> 0
      then t \<noteq> [] \<and> hd t = CHR ''-'' \<and> decimalNumeral (unat magnitude) (tl t)
      else decimalNumeral (unat magnitude) t)"
| "portText (OtherNumber text) t = (t = text)"

text \<open>
  The endpoints socket \<open>s\<close> is bound to once the creation for \<open>chan\<close> has run: none
  when the creation failed, the endpoint of the channel otherwise.
\<close>

definition boundAfter :: "environment \<Rightarrow> JupyterConnectionInfo \<Rightarrow> nat \<Rightarrow> ChannelName \<Rightarrow> string list" where
  "boundAfter env config s chan =
     (case formConnectionString config chan of
        Inl e \<Rightarrow> []
      | Inr url \<Rightarrow> if bindFails env s url then [] else [url])"

definition exampleConfig :: JupyterConnectionInfo where
  "exampleConfig =
     \<lparr>version = 5,
      iopub_port = Some (SafeInteger False 5003),
      shell_port = Some (SafeInteger False 5001),
      stdin_port = Some (SafeInteger False 5002),
      control_port = Some (SafeInteger False 5004),
      signature_scheme = ''hmac-sha256'',
      hb_port = Some (SafeInteger False 5005),
      ip = ''127.0.0.1'', key = ''secret'', transport = Tcp\<rparr>"

definition emptyMessage :: JupyterMessage where
  "emptyMessage =
     \<lparr>header = None, parent_header = JUndefined, content = JUndefined, metadata = JUndefined,
      buffers = JUndefined, channel = None, extra = Map.empty\<rparr>"

definition emptyWorld :: world where
  "emptyWorld =
     \<lparr>socketTable = (\<lambda>s. \<lparr>kind = Subscriber, routingId = None, boundTo = [], subscriptions = [],
                          closeCalls = 0, sendCalls = []\<rparr>),
      socketCount = 0,
      messageHeap = (\<lambda>m. emptyMessage),
      headerHeap = (\<lambda>a. Map.empty),
      headerCount = 0,
      consoleLog = [],
      delivered = []\<rparr>"

definition quietEnv :: environment where
  "quietEnv =
     \<lparr>bindFails = (\<lambda>s url. False), sendFails = (\<lambda>s fr. None), uuid = ''uuid-1'',
      processEnv = [''USER'' \<mapsto> ''ada'']\<rparr>"

text \<open>
  A world with four caller messages and one header object: message 0 goes to
  \<open>shell\<close> and carries stale \<open>session\<close> and \<open>username\<close> fields and a stray
  \<open>idents\<close> property, message 1 names \<open>toString\<close>, message 2 names \<open>iopub\<close>,
  message 3 names \<open>bogus\<close>.
\<close>

definition sampleHeader :: jsobject where
  "sampleHeader =
     [''msg_id'' \<mapsto> JStr ''m-1'', ''session'' \<mapsto> JStr ''stale'', ''username'' \<mapsto> JStr ''eve'']"

definition sampleWorld :: world where
  "sampleWorld =
     emptyWorld
       \<lparr>messageHeap := (\<lambda>m.
           if m = 0 then emptyMessage\<lparr>header := Some 0, content := JStr ''X'',
                                      channel := Some ''shell'',
                                      extra := [''idents'' \<mapsto> JArr [JStr ''r'']]\<rparr>
           else if m = 1 then emptyMessage\<lparr>channel := Some ''toString''\<rparr>
           else if m = 2 then emptyMessage\<lparr>channel := Some ''iopub''\<rparr>
           else if m = 3 then emptyMessage\<lparr>channel := Some ''bogus''\<rparr>
           else emptyMessage),
        headerHeap := (\<lambda>a. if a = 0 then sampleHeader else Map.empty),
        headerCount := 1\<rparr>"

text \<open>The sample world after a successful \<^verbatim>\<open>connect\<close>.\<close>

definition connected :: "(js_error + unit) \<times> EnchannelJMPConnection \<times> world" where
  "connected = connect quietEnv exampleConfig ''sid'' \<lparr>mainChannel = None\<rparr> sampleWorld"

definition connectedConn :: EnchannelJMPConnection where
  "connectedConn = fst (snd connected)"

definition connectedWorld :: world where
  "connectedWorld = snd (snd connected)"

definition connectedChannels :: Channels where
  "connectedChannels =
     \<lparr>sockets = [(''shell'', 0), (''control'', 1), (''stdin'', 2), (''iopub'', 3)],
      headerFiller = \<lparr>session = ''uuid-1'', username = ''ada''\<rparr>,
      destinationStopped = False, closed = False, observers = [], sourceError = None\<rparr>"

text \<open>A handler subscribes, then \<^verbatim>\<open>dispose()\<close> is called twice.\<close>

definition disposedTwice :: "EnchannelJMPConnection \<times> world" where
  "disposedTwice =
     (case dispose (subscribe 7 connectedConn) connectedWorld of (c, w) \<Rightarrow> dispose c w)"

text \<open>
  A sample codec.  Its decoder builds a message of the \<^verbatim>\<open>RawJupyterMessage\<close> shape
  from the frames stored under the numeric keys of its argument and reads no other key;
  its encoder renders the session of the header.
\<close>

definition frameOf :: "jsobject \<Rightarrow> string \<Rightarrow> jsval" where
  "frameOf fr k = (case fr k of None \<Rightarrow> JUndefined | Some v \<Rightarrow> v)"

definition frameDecode :: "jsobject \<Rightarrow> js_error + jsobject" where
  "frameDecode fr =
     Inr [''header'' \<mapsto> frameOf fr ''1'',
          ''parent_header'' \<mapsto> frameOf fr ''2'',
          ''metadata'' \<mapsto> frameOf fr ''3'',
          ''content'' \<mapsto> frameOf fr ''4'',
          ''buffers'' \<mapsto> JArr [],
          ''idents'' \<mapsto> JArr [frameOf fr ''0'']]"

definition sessionEncode :: "(nat \<Rightarrow> jsobject) \<Rightarrow> RawJupyterMessage \<Rightarrow> js_error + frames" where
  "sessionEncode hh jm =
     (case hh (raw_header jm) ''session'' of
        Some (JStr s) \<Rightarrow> Inr [''<IDS|MSG>'', s]
      | _ \<Rightarrow> Inl (Error ''no session''))"

definition sampleProtocol :: wireProtocol where
  "sampleProtocol = \<lparr>encode = sessionEncode, decode = frameDecode\<rparr>"

definition sampleFrames :: jsobject where
  "sampleFrames =
     [''0'' \<mapsto> JStr ''routing-id'', ''1'' \<mapsto> JStr ''{header}'', ''2'' \<mapsto> JStr ''{parent}'',
      ''3'' \<mapsto> JStr ''{metadata}'', ''4'' \<mapsto> JStr ''{content}'']"


section \<open>The endpoint formatter\<close>

lemma digit_cases:
  assumes "d < (10::nat)"
  obtains "d = 0" | "d = 1" | "d = 2" | "d = 3" | "d = 4" | "d = 5" | "d = 6" | "d = 7" | "d = 8" | "d = 9"
proof -
  from assms have "d = 0 \<or> d = 1 \<or> d = 2 \<or> d = 3 \<or> d = 4 \<or> d = 5 \<or> d = 6 \<or> d = 7 \<or> d = 8 \<or> d = 9"
    by arith
  then show thesis using that by blast
qed

lemma digitChar_in: "d < 10 \<Longrightarrow> digitChar d \<in> set ''0123456789''"
  by (erule digit_cases) (simp_all add: digitChar_def)

lemma digitValue_digitChar: "d < 10 \<Longrightarrow> digitValue (digitChar d) = d"
  by (erule digit_cases) (simp_all add: digitChar_def digitValue_def)

lemma digitChar_zero: "d < 10 \<Longrightarrow> digitChar d = CHR ''0'' \<longleftrightarrow> d = 0"
  by (erule digit_cases) (simp_all add: digitChar_def)

lemma numberToString_nonempty: "numberToString n \<noteq> []"
  by (subst numberToString.simps) simp

lemma numberToString_digits: "list_all (\<lambda>c. c \<in> set ''0123456789'') (numberToString n)"
proof (induction n rule: numberToString.induct)
  case (1 n)
  show ?case
  proof (cases "n < 10")
    case True
    then show ?thesis
      using digitChar_in [of n] by (subst numberToString.simps) simp
  next
    case False
    have "n mod 10 < 10" by simp
    then have "digitChar (n mod 10) \<in> set ''0123456789''" by (rule digitChar_in)
    with False "1.IH" show ?thesis
      by (subst numberToString.simps) simp
  qed
qed

lemma decimalValue_snoc: "decimalValue (ds @ [c]) = 10 * decimalValue ds + digitValue c"
  by (simp add: decimalValue_def)

lemma numberToString_value: "decimalValue (numberToString n) = n"
proof (induction n rule: numberToString.induct)
  case (1 n)
  show ?case
  proof (cases "n < 10")
    case True
    then show ?thesis
      by (subst numberToString.simps) (simp add: decimalValue_def digitValue_digitChar)
  next
    case False
    with "1.IH" show ?thesis
      by (subst numberToString.simps) (simp add: decimalValue_snoc digitValue_digitChar)
  qed
qed

lemma numberToString_hd: "0 < n \<Longrightarrow> hd (numberToString n) \<noteq> CHR ''0''"
proof (induction n rule: numberToString.induct)
  case (1 n)
  show ?case
  proof (cases "n < 10")
    case True
    with "1.prems" show ?thesis
      by (subst numberToString.simps) (simp add: digitChar_zero)
  next
    case False
    then have "0 < n div 10" by simp
    with False "1.IH" have "hd (numberToString (n div 10)) \<noteq> CHR ''0''" by simp
    with False show ?thesis
      by (subst numberToString.simps) (simp add: hd_append numberToString_nonempty)
  qed
qed

lemma numberToString_zero: "numberToString 0 = ''0''"
  by (subst numberToString.simps) (simp add: digitChar_def)

lemma decimalNumeral_numberToString: "decimalNumeral n (numberToString n)"
proof -
  have h: "numberToString n = ''0'' \<or> hd (numberToString n) \<noteq> CHR ''0''"
  proof (cases "n = 0")
    case True
    then show ?thesis by (simp add: numberToString_zero)
  next
    case False
    then show ?thesis using numberToString_hd [of n] by simp
  qed
  show ?thesis
    unfolding decimalNumeral_def
    using numberToString_nonempty [of n] numberToString_digits [of n] h numberToString_value [of n]
    by blast
qed

lemma portText_numberString: "portText n (numberString n)"
  by (cases n) (simp_all add: decimalNumeral_numberToString)

lemma numberToString_ports:
  "numberToString 5001 = ''5001''" "numberToString 5002 = ''5002''"
  "numberToString 5003 = ''5003''" "numberToString 5004 = ''5004''"
  "numberToString 80 = ''80''"
  by (simp_all add: numberToString.simps digitChar_def)

lemma channelPort_case:
  "channelPort config chan =
     (case chan of Iopub \<Rightarrow> iopub_port config | Stdin \<Rightarrow> stdin_port config
               | Shell \<Rightarrow> shell_port config | Control \<Rightarrow> control_port config)"
  by (cases chan) simp_all

lemma channelString_case:
  "channelString chan =
     (case chan of Iopub \<Rightarrow> ''iopub'' | Stdin \<Rightarrow> ''stdin'' | Shell \<Rightarrow> ''shell''
               | Control \<Rightarrow> ''control'')"
  by (cases chan) simp_all

lemma formConnectionString_truthy:
  assumes "channelPort config chan = Some n" "\<not> falsyNumber n"
  shows "formConnectionString config chan =
           Inr ((case transport config of Tcp \<Rightarrow> ''tcp'' | Ipc \<Rightarrow> ''ipc'') @ ''://'' @ ip config
                @ (case transport config of Tcp \<Rightarrow> '':'' | Ipc \<Rightarrow> ''-'') @ numberString n)"
  using assms
  by (cases "transport config") (simp_all add: formConnectionString_def falsyPort_def portString_def)

lemma formConnectionString_falsy:
  assumes "channelPort config chan = None \<or> (\<exists>n. channelPort config chan = Some n \<and> falsyNumber n)"
  shows "formConnectionString config chan =
           Inl (Error (''Port not found for channel \"'' @ channelString chan @ ''\"''))"
  using assms by (auto simp add: formConnectionString_def falsyPort_def)

lemma formConnectionString_cong:
  assumes "channelPort config' chan = channelPort config chan"
    "transport config' = transport config" "ip config' = ip config"
  shows "formConnectionString config' chan = formConnectionString config chan"
  using assms by (simp add: formConnectionString_def Let_def)

lemma falsyNumber_iff:
  "falsyNumber n \<longleftrightarrow> n = NaN \<or> n = SafeInteger False 0 \<or> n = SafeInteger True 0"
  by (cases n) auto

text \<open>
  C8.  For every descriptor and every channel: when the port of the channel is a number
  that is not falsy, the formatter returns \<open>transport://ip\<close>, then \<open>:\<close> for tcp and
  \<open>-\<close> for ipc, then the port as a template literal prints it, and that text is the
  right one (for an integer: an optional minus sign and the decimal numeral of the
  magnitude, digits only, no leading zero, reading back to the number); when the port is
  absent, NaN or a zero, it fails with the error naming the channel.  Only the port of
  the channel asked for, the transport and the address are looked at.
\<close>

theorem C8_formConnectionString:
  "(\<forall>n. (case chan of Iopub \<Rightarrow> iopub_port config | Stdin \<Rightarrow> stdin_port config
               | Shell \<Rightarrow> shell_port config | Control \<Rightarrow> control_port config) = Some n
         \<and> n \<noteq> NaN \<and> n \<noteq> SafeInteger False 0 \<and> n \<noteq> SafeInteger True 0 \<longrightarrow>
      formConnectionString config chan =
        Inr ((case transport config of Tcp \<Rightarrow> ''tcp'' | Ipc \<Rightarrow> ''ipc'') @ ''://'' @ ip config
             @ (case transport config of Tcp \<Rightarrow> '':'' | Ipc \<Rightarrow> ''-'') @ numberString n)
      \<and> portText n (numberString n))
   \<and> ((case chan of Iopub \<Rightarrow> iopub_port config | Stdin \<Rightarrow> stdin_port config
               | Shell \<Rightarrow> shell_port config | Control \<Rightarrow> control_port config) = None \<or> (case chan of Iopub \<Rightarrow> iopub_port config | Stdin \<Rightarrow> stdin_port config
               | Shell \<Rightarrow> shell_port config | Control \<Rightarrow> control_port config) = Some NaN
        \<or> (case chan of Iopub \<Rightarrow> iopub_port config | Stdin \<Rightarrow> stdin_port config
               | Shell \<Rightarrow> shell_port config | Control \<Rightarrow> control_port config) = Some (SafeInteger False 0) \<or> (case chan of Iopub \<Rightarrow> iopub_port config | Stdin \<Rightarrow> stdin_port config
               | Shell \<Rightarrow> shell_port config | Control \<Rightarrow> control_port config) = Some (SafeInteger True 0) \<longrightarrow>
      formConnectionString config chan =
        Inl (Error (''Port not found for channel \"''
                    @ (case chan of Iopub \<Rightarrow> ''iopub'' | Stdin \<Rightarrow> ''stdin''
                                 | Shell \<Rightarrow> ''shell'' | Control \<Rightarrow> ''control'') @ ''\"'')))
   \<and> (\<forall>config'::JupyterConnectionInfo. (case chan of Iopub \<Rightarrow> iopub_port config' | Stdin \<Rightarrow> stdin_port config'
               | Shell \<Rightarrow> shell_port config' | Control \<Rightarrow> control_port config') = (case chan of Iopub \<Rightarrow> iopub_port config | Stdin \<Rightarrow> stdin_port config
               | Shell \<Rightarrow> shell_port config | Control \<Rightarrow> control_port config)
         \<and> transport config' = transport config \<and> ip config' = ip config \<longrightarrow>
      formConnectionString config' chan = formConnectionString config chan)"
proof (intro conjI allI impI)
  fix n
  assume h: "(case chan of Iopub \<Rightarrow> iopub_port config | Stdin \<Rightarrow> stdin_port config
               | Shell \<Rightarrow> shell_port config | Control \<Rightarrow> control_port config) = Some n
         \<and> n \<noteq> NaN \<and> n \<noteq> SafeInteger False 0 \<and> n \<noteq> SafeInteger True 0"
  then have p: "channelPort config chan = Some n" and f: "\<not> falsyNumber n"
    by (simp_all add: channelPort_case falsyNumber_iff)
  show "formConnectionString config chan =
        Inr ((case transport config of Tcp \<Rightarrow> ''tcp'' | Ipc \<Rightarrow> ''ipc'') @ ''://'' @ ip config
             @ (case transport config of Tcp \<Rightarrow> '':'' | Ipc \<Rightarrow> ''-'') @ numberString n)"
    by (rule formConnectionString_truthy [OF p f])
  show "portText n (numberString n)" by (rule portText_numberString)
next
  assume "(case chan of Iopub \<Rightarrow> iopub_port config | Stdin \<Rightarrow> stdin_port config
               | Shell \<Rightarrow> shell_port config | Control \<Rightarrow> control_port config) = None \<or> (case chan of Iopub \<Rightarrow> iopub_port config | Stdin \<Rightarrow> stdin_port config
               | Shell \<Rightarrow> shell_port config | Control \<Rightarrow> control_port config) = Some NaN
        \<or> (case chan of Iopub \<Rightarrow> iopub_port config | Stdin \<Rightarrow> stdin_port config
               | Shell \<Rightarrow> shell_port config | Control \<Rightarrow> control_port config) = Some (SafeInteger False 0) \<or> (case chan of Iopub \<Rightarrow> iopub_port config | Stdin \<Rightarrow> stdin_port config
               | Shell \<Rightarrow> shell_port config | Control \<Rightarrow> control_port config) = Some (SafeInteger True 0)"
  then have "channelPort config chan = None \<or> (\<exists>n. channelPort config chan = Some n \<and> falsyNumber n)"
    by (auto simp add: channelPort_case)
  from formConnectionString_falsy [OF this] show "formConnectionString config chan =
        Inl (Error (''Port not found for channel \"''
                    @ (case chan of Iopub \<Rightarrow> ''iopub'' | Stdin \<Rightarrow> ''stdin''
                                 | Shell \<Rightarrow> ''shell'' | Control \<Rightarrow> ''control'') @ ''\"''))"
    by (simp add: channelString_case)
next
  fix config' :: JupyterConnectionInfo
  assume "(case chan of Iopub \<Rightarrow> iopub_port config' | Stdin \<Rightarrow> stdin_port config'
               | Shell \<Rightarrow> shell_port config' | Control \<Rightarrow> control_port config') = (case chan of Iopub \<Rightarrow> iopub_port config | Stdin \<Rightarrow> stdin_port config
               | Shell \<Rightarrow> shell_port config | Control \<Rightarrow> control_port config)
         \<and> transport config' = transport config \<and> ip config' = ip config"
  then show "formConnectionString config' chan = formConnectionString config chan"
    by (intro formConnectionString_cong) (simp_all add: channelPort_case)
qed

theorem C8_formConnectionString_witness:
  "formConnectionString exampleConfig Shell = Inr ''tcp://127.0.0.1:5001''
   \<and> formConnectionString exampleConfig Control = Inr ''tcp://127.0.0.1:5004''
   \<and> formConnectionString exampleConfig Stdin = Inr ''tcp://127.0.0.1:5002''
   \<and> formConnectionString exampleConfig Iopub = Inr ''tcp://127.0.0.1:5003''
   \<and> portText (SafeInteger False 5003) ''5003''
   \<and> formConnectionString (exampleConfig\<lparr>transport := Ipc, shell_port := Some (SafeInteger True 80)\<rparr>) Shell
       = Inr ''ipc://127.0.0.1--80''
   \<and> portText (SafeInteger True 80) ''-80''
   \<and> formConnectionString (exampleConfig\<lparr>transport := Ipc, shell_port := Some (SafeInteger True 80)\<rparr>) Iopub
       = Inr ''ipc://127.0.0.1-5003''
   \<and> formConnectionString (exampleConfig\<lparr>control_port := Some (OtherNumber ''1e+21'')\<rparr>) Control
       = Inr ''tcp://127.0.0.1:1e+21''
   \<and> formConnectionString (exampleConfig\<lparr>stdin_port := None\<rparr>) Stdin
       = Inl (Error ''Port not found for channel \"stdin\"'')
   \<and> formConnectionString (exampleConfig\<lparr>iopub_port := Some NaN\<rparr>) Iopub
       = Inl (Error ''Port not found for channel \"iopub\"'')
   \<and> formConnectionString (exampleConfig\<lparr>shell_port := Some (SafeInteger False 0)\<rparr>) Shell
       = Inl (Error ''Port not found for channel \"shell\"'')
   \<and> formConnectionString (exampleConfig\<lparr>control_port := Some (SafeInteger True 0)\<rparr>) Control
       = Inl (Error ''Port not found for channel \"control\"'')
   \<and> formConnectionString (exampleConfig\<lparr>stdin_port := None\<rparr>) Shell
       = formConnectionString exampleConfig Shell"
proof -
  note t = C8_formConnectionString
  note tr = t [THEN conjunct1, rule_format]
  note fa = t [THEN conjunct2, THEN conjunct1, rule_format]
  note co = t [THEN conjunct2, THEN conjunct2, rule_format]
  have 1: "formConnectionString exampleConfig Shell = Inr ''tcp://127.0.0.1:5001''"
    using tr [where chan = Shell and config = exampleConfig and n = "SafeInteger False 5001"]
    by (simp add: exampleConfig_def numberToString_ports)
  have 2: "formConnectionString exampleConfig Control = Inr ''tcp://127.0.0.1:5004''"
    using tr [where chan = Control and config = exampleConfig and n = "SafeInteger False 5004"]
    by (simp add: exampleConfig_def numberToString_ports)
  have 3: "formConnectionString exampleConfig Stdin = Inr ''tcp://127.0.0.1:5002''"
    using tr [where chan = Stdin and config = exampleConfig and n = "SafeInteger False 5002"]
    by (simp add: exampleConfig_def numberToString_ports)
  have 4: "formConnectionString exampleConfig Iopub = Inr ''tcp://127.0.0.1:5003''
           \<and> portText (SafeInteger False 5003) ''5003''"
    using tr [where chan = Iopub and config = exampleConfig and n = "SafeInteger False 5003"]
    by (simp add: exampleConfig_def numberToString_ports)
  have 5: "formConnectionString (exampleConfig\<lparr>transport := Ipc, shell_port := Some (SafeInteger True 80)\<rparr>) Shell
             = Inr ''ipc://127.0.0.1--80''
           \<and> portText (SafeInteger True 80) ''-80''"
    using tr [where chan = Shell and config = "exampleConfig\<lparr>transport := Ipc, shell_port := Some (SafeInteger True 80)\<rparr>" and n = "SafeInteger True 80"]
    by (simp add: exampleConfig_def numberToString_ports)
  have 6: "formConnectionString (exampleConfig\<lparr>transport := Ipc, shell_port := Some (SafeInteger True 80)\<rparr>) Iopub
             = Inr ''ipc://127.0.0.1-5003''"
    using tr [where chan = Iopub and config = "exampleConfig\<lparr>transport := Ipc, shell_port := Some (SafeInteger True 80)\<rparr>" and n = "SafeInteger False 5003"]
    by (simp add: exampleConfig_def numberToString_ports)
  have 7: "formConnectionString (exampleConfig\<lparr>control_port := Some (OtherNumber ''1e+21'')\<rparr>) Control
             = Inr ''tcp://127.0.0.1:1e+21''"
    using tr [where chan = Control and config = "exampleConfig\<lparr>control_port := Some (OtherNumber ''1e+21'')\<rparr>" and n = "OtherNumber ''1e+21''"]
    by (simp add: exampleConfig_def)
  have 8: "formConnectionString (exampleConfig\<lparr>stdin_port := None\<rparr>) Stdin
             = Inl (Error ''Port not found for channel \"stdin\"'')"
    using fa [where chan = Stdin and config = "exampleConfig\<lparr>stdin_port := None\<rparr>"] by simp
  have 9: "formConnectionString (exampleConfig\<lparr>iopub_port := Some NaN\<rparr>) Iopub
             = Inl (Error ''Port not found for channel \"iopub\"'')"
    using fa [where chan = Iopub and config = "exampleConfig\<lparr>iopub_port := Some NaN\<rparr>"] by simp
  have 10: "formConnectionString (exampleConfig\<lparr>shell_port := Some (SafeInteger False 0)\<rparr>) Shell
             = Inl (Error ''Port not found for channel \"shell\"'')"
    using fa [where chan = Shell and config = "exampleConfig\<lparr>shell_port := Some (SafeInteger False 0)\<rparr>"] by simp
  have 11: "formConnectionString (exampleConfig\<lparr>control_port := Some (SafeInteger True 0)\<rparr>) Control
             = Inl (Error ''Port not found for channel \"control\"'')"
    using fa [where chan = Control and config = "exampleConfig\<lparr>control_port := Some (SafeInteger True 0)\<rparr>"] by simp
  have 12: "formConnectionString (exampleConfig\<lparr>stdin_port := None\<rparr>) Shell
             = formConnectionString exampleConfig Shell"
    using co [where chan = Shell and config' = "exampleConfig\<lparr>stdin_port := None\<rparr>" and config = exampleConfig] by simp
  from 1 2 3 4 5 6 7 8 9 10 11 12 show ?thesis by blast
qed

section \<open>Failure of the batch creation\<close>

lemma createDealer_fst:
  "fst (createDealer env chan identity config w) =
     (case formConnectionString config chan of
        Inl e \<Rightarrow> Inl e
      | Inr url \<Rightarrow> if bindFails env (socketCount w) url then Inl SocketError else Inr (socketCount w))"
  by (simp add: createDealer_def newSocket_def bind_def split: sum.splits)

lemma createSubscriber_fst:
  "fst (createSubscriber env chan config w) =
     (case formConnectionString config chan of
        Inl e \<Rightarrow> Inl e
      | Inr url \<Rightarrow> if bindFails env (socketCount w) url then Inl SocketError else Inr (socketCount w))"
  by (simp add: createSubscriber_def newSocket_def bind_def split: sum.splits)

lemma createDealer_count:
  "socketCount (snd (createDealer env chan identity config w)) = Suc (socketCount w)"
  by (simp add: createDealer_def newSocket_def bind_def updSocket_def split: sum.splits)

lemma createSubscriber_count:
  "socketCount (snd (createSubscriber env chan config w)) = Suc (socketCount w)"
  by (simp add: createSubscriber_def newSocket_def bind_def updSocket_def split: sum.splits)

lemma createDealer_closeCalls:
  "closeCalls (socketTable (snd (createDealer env chan identity config w)) s) =
     (if s = socketCount w then 0 else closeCalls (socketTable w s))"
  by (simp add: createDealer_def newSocket_def bind_def updSocket_def split: sum.splits)

lemma createSubscriber_closeCalls:
  "closeCalls (socketTable (snd (createSubscriber env chan config w)) s) =
     (if s = socketCount w then 0 else closeCalls (socketTable w s))"
  by (simp add: createSubscriber_def newSocket_def bind_def updSocket_def split: sum.splits)

lemma createDealer_boundTo:
  "boundTo (socketTable (snd (createDealer env chan identity config w)) s) =
     (if s = socketCount w then boundAfter env config s chan else boundTo (socketTable w s))"
  by (simp add: createDealer_def newSocket_def bind_def updSocket_def boundAfter_def
      split: sum.splits)

lemma createSubscriber_boundTo:
  "boundTo (socketTable (snd (createSubscriber env chan config w)) s) =
     (if s = socketCount w then boundAfter env config s chan else boundTo (socketTable w s))"
  by (simp add: createSubscriber_def newSocket_def bind_def updSocket_def boundAfter_def
      split: sum.splits)

lemma boundAfter_failed: "creationFails env config s chan \<longleftrightarrow> boundAfter env config s chan = []"
  by (simp add: creationFails_def boundAfter_def split: sum.splits)

lemma creation_fails_iff:
  "(\<exists>e. (case formConnectionString config chan of
        Inl e \<Rightarrow> Inl e
      | Inr url \<Rightarrow> if bindFails env s url then Inl SocketError else Inr s) = Inl e)
   \<longleftrightarrow> creationFails env config s chan"
  by (simp add: creationFails_def split: sum.splits)

lemma promiseAll4_Inl:
  "(\<exists>e. r1 = Inl e) \<or> (\<exists>e. r2 = Inl e) \<or> (\<exists>e. r3 = Inl e) \<or> (\<exists>e. r4 = Inl e)
   \<Longrightarrow> \<exists>e. promiseAll4 r1 r2 r3 r4 = Inl e"
  by (cases r1; cases r2; cases r3; cases r4) (auto split: option.splits)

lemma promiseAll4_Inr:
  "promiseAll4 r1 r2 r3 r4 = Inr v \<longleftrightarrow> (\<exists>a b c d. r1 = Inr a \<and> r2 = Inr b \<and> r3 = Inr c \<and> r4 = Inr d \<and> v = (a, b, c, d))"
  by (cases r1; cases r2; cases r3; cases r4) (auto split: option.splits)

lemma createSockets_fst:
  "fst (createSockets env config subscription identity w) =
     (let w1 = snd (createDealer env Shell identity config w);
          w2 = snd (createDealer env Control identity config w1);
          w3 = snd (createDealer env Stdin identity config w2)
      in case promiseAll4 (fst (createDealer env Shell identity config w))
                (fst (createDealer env Control identity config w1))
                (fst (createDealer env Stdin identity config w2))
                (fst (createSubscriber env Iopub config w3)) of
           Inl e \<Rightarrow> Inl e
         | Inr (shell, control, stdin, iopub) \<Rightarrow>
             Inr [(''shell'', shell), (''control'', control), (''stdin'', stdin), (''iopub'', iopub)])"
  by (simp add: createSockets_def Let_def case_prod_beta split: sum.splits)

lemma createSockets_snd_fail:
  "fst (createSockets env config subscription identity w) = Inl e \<Longrightarrow>
   snd (createSockets env config subscription identity w) =
     snd (createSubscriber env Iopub config
       (snd (createDealer env Stdin identity config
         (snd (createDealer env Control identity config
           (snd (createDealer env Shell identity config w)))))))"
  by (simp add: createSockets_def Let_def case_prod_beta split: sum.splits)

text \<open>
  C1 (as amended).  If any one of the four per-channel creations of the batch fails
  (its port is missing or its bind is rejected), \<open>createSockets\<close> fails as a whole and
  returns no socket set.  All four sockets have been constructed by then and none of
  them is closed: the batch never calls \<^verbatim>\<open>close\<close>.  Each socket whose own creation
  succeeded stays bound to its endpoint, each socket whose creation failed is bound to
  nothing, and the sockets that existed before are as they were.
\<close>

theorem C1_createSockets_failure:
  assumes "creationFails env config (socketCount w) Shell
         \<or> creationFails env config (socketCount w + 1) Control
         \<or> creationFails env config (socketCount w + 2) Stdin
         \<or> creationFails env config (socketCount w + 3) Iopub"
  shows "(\<exists>e. fst (createSockets env config subscription identity w) = Inl e)
       \<and> socketCount (snd (createSockets env config subscription identity w)) = socketCount w + 4
       \<and> (\<forall>s. closeCalls (socketTable (snd (createSockets env config subscription identity w)) s)
              = (if socketCount w \<le> s \<and> s < socketCount w + 4 then 0
                 else closeCalls (socketTable w s)))
       \<and> (\<forall>s. boundTo (socketTable (snd (createSockets env config subscription identity w)) s)
              = (if s = socketCount w then boundAfter env config s Shell
                 else if s = socketCount w + 1 then boundAfter env config s Control
                 else if s = socketCount w + 2 then boundAfter env config s Stdin
                 else if s = socketCount w + 3 then boundAfter env config s Iopub
                 else boundTo (socketTable w s)))"
proof -
  let ?w1 = "snd (createDealer env Shell identity config w)"
  let ?w2 = "snd (createDealer env Control identity config ?w1)"
  let ?w3 = "snd (createDealer env Stdin identity config ?w2)"
  let ?w4 = "snd (createSubscriber env Iopub config ?w3)"
  have c1: "socketCount ?w1 = socketCount w + 1" by (simp add: createDealer_count)
  have c2: "socketCount ?w2 = socketCount w + 2" by (simp add: createDealer_count)
  have c3: "socketCount ?w3 = socketCount w + 3" by (simp add: createDealer_count)
  have c4: "socketCount ?w4 = socketCount w + 4" by (simp add: createDealer_count createSubscriber_count)
  have "(\<exists>e. fst (createDealer env Shell identity config w) = Inl e)
      \<or> (\<exists>e. fst (createDealer env Control identity config ?w1) = Inl e)
      \<or> (\<exists>e. fst (createDealer env Stdin identity config ?w2) = Inl e)
      \<or> (\<exists>e. fst (createSubscriber env Iopub config ?w3) = Inl e)"
    using assms unfolding createDealer_fst createSubscriber_fst creation_fails_iff c1 c2 c3
    by simp
  then have "\<exists>e. promiseAll4 (fst (createDealer env Shell identity config w))
                (fst (createDealer env Control identity config ?w1))
                (fst (createDealer env Stdin identity config ?w2))
                (fst (createSubscriber env Iopub config ?w3)) = Inl e"
    by (rule promiseAll4_Inl)
  then obtain e where e: "fst (createSockets env config subscription identity w) = Inl e"
    by (auto simp add: createSockets_fst Let_def)
  have w4: "snd (createSockets env config subscription identity w) = ?w4"
    using e by (rule createSockets_snd_fail)
  have cc: "\<forall>s. closeCalls (socketTable ?w4 s)
              = (if socketCount w \<le> s \<and> s < socketCount w + 4 then 0
                 else closeCalls (socketTable w s))"
    by (auto simp add: createSubscriber_closeCalls createDealer_closeCalls c1 c2 c3)
  have bb: "\<forall>s. boundTo (socketTable ?w4 s)
              = (if s = socketCount w then boundAfter env config s Shell
                 else if s = socketCount w + 1 then boundAfter env config s Control
                 else if s = socketCount w + 2 then boundAfter env config s Stdin
                 else if s = socketCount w + 3 then boundAfter env config s Iopub
                 else boundTo (socketTable w s))"
    by (simp add: createSubscriber_boundTo createDealer_boundTo c1 c2 c3)
  show ?thesis using e w4 c4 cc bb by simp
qed

theorem C1_createSockets_failure_witness:
  "creationFails (quietEnv\<lparr>bindFails := (\<lambda>s url. s = 2)\<rparr>) exampleConfig (socketCount emptyWorld + 2) Stdin
   \<and> (\<exists>e. fst (createSockets (quietEnv\<lparr>bindFails := (\<lambda>s url. s = 2)\<rparr>) exampleConfig [] ''id'' emptyWorld) = Inl e)
   \<and> socketCount (snd (createSockets (quietEnv\<lparr>bindFails := (\<lambda>s url. s = 2)\<rparr>) exampleConfig [] ''id'' emptyWorld)) = 4
   \<and> closeCalls (socketTable (snd (createSockets (quietEnv\<lparr>bindFails := (\<lambda>s url. s = 2)\<rparr>) exampleConfig [] ''id'' emptyWorld)) 0) = 0
   \<and> boundTo (socketTable (snd (createSockets (quietEnv\<lparr>bindFails := (\<lambda>s url. s = 2)\<rparr>) exampleConfig [] ''id'' emptyWorld)) 0)
       = [''tcp://127.0.0.1:5001'']
   \<and> boundTo (socketTable (snd (createSockets (quietEnv\<lparr>bindFails := (\<lambda>s url. s = 2)\<rparr>) exampleConfig [] ''id'' emptyWorld)) 2)
       = []
   \<and> boundTo (socketTable (snd (createSockets (quietEnv\<lparr>bindFails := (\<lambda>s url. s = 2)\<rparr>) exampleConfig [] ''id'' emptyWorld)) 3)
       = [''tcp://127.0.0.1:5003'']"
proof -
  let ?env = "quietEnv\<lparr>bindFails := (\<lambda>s url. s = 2)\<rparr>"
  have h: "creationFails ?env exampleConfig (socketCount emptyWorld + 2) Stdin"
    by (simp add: creationFails_def formConnectionString_def falsyPort_def portString_def
        exampleConfig_def emptyWorld_def quietEnv_def)
  have g: "socketCount emptyWorld = 0" by (simp add: emptyWorld_def)
  have b0: "boundAfter ?env exampleConfig 0 Shell = [''tcp://127.0.0.1:5001'']"
    by (simp add: boundAfter_def formConnectionString_def falsyPort_def portString_def
        exampleConfig_def quietEnv_def numberToString_ports)
  have b2: "boundAfter ?env exampleConfig 2 Stdin = []"
    by (simp add: boundAfter_def formConnectionString_def falsyPort_def portString_def
        exampleConfig_def quietEnv_def)
  have b3: "boundAfter ?env exampleConfig 3 Iopub = [''tcp://127.0.0.1:5003'']"
    by (simp add: boundAfter_def formConnectionString_def falsyPort_def portString_def
        exampleConfig_def quietEnv_def numberToString_ports)
  note t = C1_createSockets_failure [of ?env exampleConfig emptyWorld "[]" "''id''"]
  from h have p: "creationFails ?env exampleConfig (socketCount emptyWorld) Shell
         \<or> creationFails ?env exampleConfig (socketCount emptyWorld + 1) Control
         \<or> creationFails ?env exampleConfig (socketCount emptyWorld + 2) Stdin
         \<or> creationFails ?env exampleConfig (socketCount emptyWorld + 3) Iopub"
    by blast
  note r = t [OF p]
  note r1 = r [THEN conjunct1]
  note r2 = r [THEN conjunct2, THEN conjunct1]
  note r3 = r [THEN conjunct2, THEN conjunct2, THEN conjunct1, rule_format, of 0]
  note r4 = r [THEN conjunct2, THEN conjunct2, THEN conjunct2, rule_format]
  have x0: "boundTo (socketTable (snd (createSockets ?env exampleConfig [] ''id'' emptyWorld)) 0)
       = [''tcp://127.0.0.1:5001'']"
    using r4 [of 0] b0 by (simp add: g)
  have x2: "boundTo (socketTable (snd (createSockets ?env exampleConfig [] ''id'' emptyWorld)) 2)
       = []"
    using r4 [of 2] b2 by (simp add: g)
  have x3: "boundTo (socketTable (snd (createSockets ?env exampleConfig [] ''id'' emptyWorld)) 3)
       = [''tcp://127.0.0.1:5003'']"
    using r4 [of 3] b3 by (simp add: g)
  show ?thesis
    using h r1 r2 r3 x0 x2 x3 by (simp add: g)
qed

text \<open>
  The claim as stated asks for every socket created in the batch to be closed before
  the error propagates.  With the shell port missing the batch fails, and the four
  sockets it created, three of them bound, have never been closed.
\<close>

theorem C1_createSockets_counterexample:
  "fst (createSockets quietEnv (exampleConfig\<lparr>shell_port := None\<rparr>) [] ''id'' emptyWorld)
     = Inl (Error ''Port not found for channel \"shell\"'')
   \<and> socketCount (snd (createSockets quietEnv (exampleConfig\<lparr>shell_port := None\<rparr>) [] ''id'' emptyWorld)) = 4
   \<and> boundTo (socketTable (snd (createSockets quietEnv (exampleConfig\<lparr>shell_port := None\<rparr>) [] ''id'' emptyWorld)) 1)
       = [''tcp://127.0.0.1:5004'']
   \<and> closeCalls (socketTable (snd (createSockets quietEnv (exampleConfig\<lparr>shell_port := None\<rparr>) [] ''id'' emptyWorld)) 0) = 0
   \<and> closeCalls (socketTable (snd (createSockets quietEnv (exampleConfig\<lparr>shell_port := None\<rparr>) [] ''id'' emptyWorld)) 1) = 0
   \<and> closeCalls (socketTable (snd (createSockets quietEnv (exampleConfig\<lparr>shell_port := None\<rparr>) [] ''id'' emptyWorld)) 2) = 0
   \<and> closeCalls (socketTable (snd (createSockets quietEnv (exampleConfig\<lparr>shell_port := None\<rparr>) [] ''id'' emptyWorld)) 3) = 0"
  by (simp add: createSockets_def createDealer_def createSubscriber_def newSocket_def bind_def
      updSocket_def formConnectionString_def falsyPort_def portString_def exampleConfig_def emptyWorld_def
      quietEnv_def numberToString_ports)

section \<open>The outbound path\<close>

lemma foldHeader_fst: "fst (foldHeader filler msgHeader w) = headerCount w"
  by (simp add: foldHeader_def)

lemma foldHeader_world:
  "snd (foldHeader filler msgHeader w) =
     w\<lparr>headerHeap := (headerHeap w)(headerCount w :=
          (case msgHeader of None \<Rightarrow> Map.empty | Some a \<Rightarrow> headerHeap w a)
            ++ [''session'' \<mapsto> JStr (session filler), ''username'' \<mapsto> JStr (username filler)]),
        headerCount := Suc (headerCount w)\<rparr>"
  by (simp add: foldHeader_def)

lemma jMessageOf_fst:
  "fst (jMessageOf filler m w) =
     \<lparr>raw_header = headerCount w,
      raw_parent_header = parent_header (messageHeap w m),
      raw_content = content (messageHeap w m),
      raw_metadata = metadata (messageHeap w m),
      raw_buffers = buffers (messageHeap w m),
      raw_idents = []\<rparr>"
  by (simp add: jMessageOf_def foldHeader_def Let_def)

lemma jMessageOf_snd:
  "snd (jMessageOf filler m w) = snd (foldHeader filler (header (messageHeap w m)) w)"
  by (simp add: jMessageOf_def case_prod_beta Let_def)

lemma send_world:
  "snd (send env s fr w) = updSocket s (\<lambda>z. z\<lparr>sendCalls := sendCalls z @ [fr]\<rparr>) w"
  by (simp add: send_def Let_def split: option.splits)

lemma trySend_snd:
  "snd (trySend env wp socket filler m w) =
     (let w1 = snd (jMessageOf filler m w)
      in case sendTarget w1 socket of
           None \<Rightarrow> w1
         | Some s \<Rightarrow>
             (case encode wp (headerHeap w1) (fst (jMessageOf filler m w)) of
                Inl e \<Rightarrow> w1
              | Inr fr \<Rightarrow> updSocket s (\<lambda>z. z\<lparr>sendCalls := sendCalls z @ [fr]\<rparr>) w1))"
  by (simp add: trySend_def case_prod_beta send_world Let_def split: option.splits sum.splits)

lemma outgoingMessages_fst: "fst (outgoingMessages env wp ss filler message w) = Fulfilled"
  by (simp add: outgoingMessages_def split: option.splits sum.splits prod.splits)

lemma trySend_messageHeap:
  "messageHeap (snd (trySend env wp socket filler m w)) = messageHeap w"
  by (simp add: trySend_snd jMessageOf_snd foldHeader_world updSocket_def Let_def
      split: option.splits sum.splits)

lemma trySend_headerHeap:
  "a < headerCount w \<Longrightarrow> headerHeap (snd (trySend env wp socket filler m w)) a = headerHeap w a"
  by (simp add: trySend_snd jMessageOf_snd foldHeader_world updSocket_def Let_def
      split: option.splits sum.splits)

lemma trySend_consoleLog:
  "consoleLog (snd (trySend env wp socket filler m w)) = consoleLog w"
  by (simp add: trySend_snd jMessageOf_snd foldHeader_world updSocket_def Let_def
      split: option.splits sum.splits)

lemma outgoingMessages_snd:
  "snd (outgoingMessages env wp ss filler message w) =
     (case message of
        None \<Rightarrow> warn ''message sent without a channel'' message w
      | Some m \<Rightarrow>
          (case channel (messageHeap w m) of
             None \<Rightarrow> warn ''message sent without a channel'' message w
           | Some c \<Rightarrow>
               if c = [] then warn ''message sent without a channel'' message w
               else (case lookupSocket ss c of
                       None \<Rightarrow> warn ''channel not understood for message'' message w
                     | Some socket \<Rightarrow>
                         (case fst (trySend env wp socket filler m w) of
                            Inl err \<Rightarrow> traceError ''Error sending message'' err m
                                         (snd (trySend env wp socket filler m w))
                          | Inr u \<Rightarrow> snd (trySend env wp socket filler m w)))))"
  by (simp add: outgoingMessages_def split: option.splits sum.splits prod.splits)

lemma outgoingMessages_headerHeap:
  "a < headerCount w \<Longrightarrow>
   headerHeap (snd (outgoingMessages env wp ss filler message w)) a = headerHeap w a"
  by (simp add: outgoingMessages_snd warn_def traceError_def trySend_headerHeap
      split: option.splits sum.splits)

lemma outgoingMessages_messageHeap:
  "messageHeap (snd (outgoingMessages env wp ss filler message w)) = messageHeap w"
  by (simp add: outgoingMessages_snd warn_def traceError_def trySend_messageHeap
      split: option.splits sum.splits)

text \<open>
  C4.  Header enrichment is a pure merge.  The header of the wire message is a new
  object (its reference is the next free one, so it differs from every allocated
  header, the message's own included); its \<open>session\<close> and \<open>username\<close> are those of
  the filler whatever the message's header holds under these keys; every other key is
  as in the message's header; no existing header object changes.
\<close>

theorem C4_header_enrichment:
  assumes "jMessageOf filler m w = (jm, w')"
  shows "headerHeap w' (raw_header jm) ''session'' = Some (JStr (session filler))
       \<and> headerHeap w' (raw_header jm) ''username'' = Some (JStr (username filler))
       \<and> (\<forall>k. k \<noteq> ''session'' \<and> k \<noteq> ''username'' \<longrightarrow>
             headerHeap w' (raw_header jm) k =
               (case header (messageHeap w m) of None \<Rightarrow> None | Some a \<Rightarrow> headerHeap w a k))
       \<and> raw_header jm = headerCount w
       \<and> (\<forall>a. a \<noteq> headerCount w \<longrightarrow> headerHeap w' a = headerHeap w a)
       \<and> (\<forall>a. header (messageHeap w m) = Some a \<and> a < headerCount w \<longrightarrow>
             raw_header jm \<noteq> a \<and> headerHeap w' a = headerHeap w a)"
proof -
  have jm: "jm = fst (jMessageOf filler m w)" and w': "w' = snd (jMessageOf filler m w)"
    using assms by simp_all
  show ?thesis
    unfolding jm w' jMessageOf_fst jMessageOf_snd foldHeader_world
    by (auto split: option.splits)
qed

theorem C4_header_enrichment_witness:
  "headerHeap (snd (jMessageOf \<lparr>session = ''s-1'', username = ''ada''\<rparr> 0 sampleWorld))
       (raw_header (fst (jMessageOf \<lparr>session = ''s-1'', username = ''ada''\<rparr> 0 sampleWorld))) ''session''
     = Some (JStr ''s-1'')
   \<and> headerHeap (snd (jMessageOf \<lparr>session = ''s-1'', username = ''ada''\<rparr> 0 sampleWorld))
       (raw_header (fst (jMessageOf \<lparr>session = ''s-1'', username = ''ada''\<rparr> 0 sampleWorld))) ''username''
     = Some (JStr ''ada'')
   \<and> headerHeap (snd (jMessageOf \<lparr>session = ''s-1'', username = ''ada''\<rparr> 0 sampleWorld))
       (raw_header (fst (jMessageOf \<lparr>session = ''s-1'', username = ''ada''\<rparr> 0 sampleWorld))) ''msg_id''
     = Some (JStr ''m-1'')
   \<and> raw_header (fst (jMessageOf \<lparr>session = ''s-1'', username = ''ada''\<rparr> 0 sampleWorld)) = 1
   \<and> headerHeap (snd (jMessageOf \<lparr>session = ''s-1'', username = ''ada''\<rparr> 0 sampleWorld)) 0 ''session''
     = Some (JStr ''stale'')"
proof -
  have h: "header (messageHeap sampleWorld 0) = Some 0" "headerCount sampleWorld = 1"
    "headerHeap sampleWorld 0 = sampleHeader"
    by (simp_all add: sampleWorld_def emptyWorld_def emptyMessage_def)
  have s: "sampleHeader ''msg_id'' = Some (JStr ''m-1'')" "sampleHeader ''session'' = Some (JStr ''stale'')"
    by (simp_all add: sampleHeader_def)
  note t = C4_header_enrichment [OF prod.collapse [symmetric],
      of "\<lparr>session = ''s-1'', username = ''ada''\<rparr>" 0 sampleWorld]
  note t1 = t [THEN conjunct1]
  note t2 = t [THEN conjunct2, THEN conjunct1]
  note t3 = t [THEN conjunct2, THEN conjunct2, THEN conjunct1, rule_format, of "''msg_id''"]
  note t4 = t [THEN conjunct2, THEN conjunct2, THEN conjunct2, THEN conjunct1]
  note t6 = t [THEN conjunct2, THEN conjunct2, THEN conjunct2, THEN conjunct2, THEN conjunct2,
      rule_format, of 0]
  have a: "headerHeap (snd (jMessageOf \<lparr>session = ''s-1'', username = ''ada''\<rparr> 0 sampleWorld))
       (raw_header (fst (jMessageOf \<lparr>session = ''s-1'', username = ''ada''\<rparr> 0 sampleWorld))) ''msg_id''
     = Some (JStr ''m-1'')"
    using t3 by (simp add: h s)
  have b: "headerHeap (snd (jMessageOf \<lparr>session = ''s-1'', username = ''ada''\<rparr> 0 sampleWorld)) 0 ''session''
     = Some (JStr ''stale'')"
    using t6 by (simp add: h s)
  show ?thesis
    using t1 t2 t4 a b by (simp add: h)
qed

text \<open>
  C10.  A push never mutates what the caller owns: the message objects are unchanged
  and so is every header object that existed before the push.  The wire message has a
  fresh header reference, and its \<open>idents\<close> is the empty list whatever the input
  message holds.
\<close>

theorem C10_push_does_not_mutate:
  "messageHeap (snd (outgoingMessages env wp ss filler message w)) = messageHeap w
   \<and> (\<forall>a<headerCount w. headerHeap (snd (outgoingMessages env wp ss filler message w)) a = headerHeap w a)
   \<and> raw_idents (fst (jMessageOf filler m w)) = []
   \<and> raw_header (fst (jMessageOf filler m w)) = headerCount w"
  by (simp add: outgoingMessages_messageHeap outgoingMessages_headerHeap jMessageOf_fst)


lemma creation_Inr:
  "(case formConnectionString config chan of
      Inl e \<Rightarrow> Inl e
    | Inr url \<Rightarrow> if bindFails env s url then Inl SocketError else Inr s) = Inr a \<Longrightarrow> a = s"
  by (simp split: sum.splits if_splits)

lemma createDealer_kind:
  "kind (socketTable (snd (createDealer env chan identity config w)) s) =
     (if s = socketCount w then Dealer else kind (socketTable w s))"
  by (simp add: createDealer_def newSocket_def bind_def updSocket_def split: sum.splits)

lemma createSubscriber_kind:
  "kind (socketTable (snd (createSubscriber env chan config w)) s) =
     (if s = socketCount w then Subscriber else kind (socketTable w s))"
  by (simp add: createSubscriber_def newSocket_def bind_def updSocket_def split: sum.splits)

lemma createDealer_sendCalls:
  "sendCalls (socketTable (snd (createDealer env chan identity config w)) s) =
     (if s = socketCount w then [] else sendCalls (socketTable w s))"
  by (simp add: createDealer_def newSocket_def bind_def updSocket_def split: sum.splits)

lemma createSubscriber_sendCalls:
  "sendCalls (socketTable (snd (createSubscriber env chan config w)) s) =
     (if s = socketCount w then [] else sendCalls (socketTable w s))"
  by (simp add: createSubscriber_def newSocket_def bind_def updSocket_def split: sum.splits)

lemma createSockets_success:
  assumes "fst (createSockets env config subscription identity w) = Inr ss"
  shows "ss = [(''shell'', socketCount w), (''control'', socketCount w + 1),
               (''stdin'', socketCount w + 2), (''iopub'', socketCount w + 3)]"
    and "snd (createSockets env config subscription identity w) =
          updSocket (socketCount w + 3) (\<lambda>z. z\<lparr>subscriptions := subscriptions z @ [subscription]\<rparr>)
            (snd (createSubscriber env Iopub config
              (snd (createDealer env Stdin identity config
                (snd (createDealer env Control identity config
                  (snd (createDealer env Shell identity config w))))))))"
proof -
  let ?w1 = "snd (createDealer env Shell identity config w)"
  let ?w2 = "snd (createDealer env Control identity config ?w1)"
  let ?w3 = "snd (createDealer env Stdin identity config ?w2)"
  obtain v where v: "promiseAll4 (fst (createDealer env Shell identity config w))
                (fst (createDealer env Control identity config ?w1))
                (fst (createDealer env Stdin identity config ?w2))
                (fst (createSubscriber env Iopub config ?w3)) = Inr v"
    using assms by (auto simp add: createSockets_fst Let_def split: sum.splits)
  then obtain a b c d where r: "fst (createDealer env Shell identity config w) = Inr a"
      "fst (createDealer env Control identity config ?w1) = Inr b"
      "fst (createDealer env Stdin identity config ?w2) = Inr c"
      "fst (createSubscriber env Iopub config ?w3) = Inr d" and vv: "v = (a, b, c, d)"
    unfolding promiseAll4_Inr by blast
  have a: "a = socketCount w"
    using r(1) unfolding createDealer_fst by (rule creation_Inr)
  have b: "b = socketCount w + 1"
    using r(2) unfolding createDealer_fst by (auto dest!: creation_Inr simp add: createDealer_count)
  have c: "c = socketCount w + 2"
    using r(3) unfolding createDealer_fst by (auto dest!: creation_Inr simp add: createDealer_count)
  have d: "d = socketCount w + 3"
    using r(4) unfolding createSubscriber_fst by (auto dest!: creation_Inr simp add: createDealer_count)
  show "ss = [(''shell'', socketCount w), (''control'', socketCount w + 1),
               (''stdin'', socketCount w + 2), (''iopub'', socketCount w + 3)]"
    using assms v vv a b c d by (simp add: createSockets_fst Let_def)
  show "snd (createSockets env config subscription identity w) =
          updSocket (socketCount w + 3) (\<lambda>z. z\<lparr>subscriptions := subscriptions z @ [subscription]\<rparr>)
            (snd (createSubscriber env Iopub config ?w3))"
    using r a b c d by (simp add: createSockets_def Let_def case_prod_beta)
qed


lemma connect_success:
  assumes "connect env config sid conn w = (Inr u, conn', w')"
  shows "mainChannel conn' =
           Some (createMainChannelFromSockets
                   [(''shell'', socketCount w), (''control'', socketCount w + 1),
                    (''stdin'', socketCount w + 2), (''iopub'', socketCount w + 3)]
                   \<lparr>session = uuid env, username = getUsername env\<rparr>)"
    and "w' = updSocket (socketCount w + 3) (\<lambda>z. z\<lparr>subscriptions := subscriptions z @ [[]]\<rparr>)
            (snd (createSubscriber env Iopub config
              (snd (createDealer env Stdin sid config
                (snd (createDealer env Control sid config
                  (snd (createDealer env Shell sid config w))))))))"
proof -
  obtain r w1 where rw: "createSockets env config [] sid w = (r, w1)"
    by (cases "createSockets env config [] sid w")
  with assms obtain ss where ss: "r = Inr ss"
    by (cases r) (simp_all add: connect_def createMainChannel_def)
  have f: "fst (createSockets env config [] sid w) = Inr ss" and g: "snd (createSockets env config [] sid w) = w1"
    using rw ss by simp_all
  note cs = createSockets_success [OF f]
  show "mainChannel conn' =
           Some (createMainChannelFromSockets
                   [(''shell'', socketCount w), (''control'', socketCount w + 1),
                    (''stdin'', socketCount w + 2), (''iopub'', socketCount w + 3)]
                   \<lparr>session = uuid env, username = getUsername env\<rparr>)"
    using assms rw ss cs(1) by (auto simp add: connect_def createMainChannel_def)
  show "w' = updSocket (socketCount w + 3) (\<lambda>z. z\<lparr>subscriptions := subscriptions z @ [[]]\<rparr>)
            (snd (createSubscriber env Iopub config
              (snd (createDealer env Stdin sid config
                (snd (createDealer env Control sid config
                  (snd (createDealer env Shell sid config w))))))))"
    using assms rw ss cs(2) g by (auto simp add: connect_def createMainChannel_def)
qed

lemma updSocket_kind:
  "kind (socketTable (updSocket s f w) t) =
     (if t = s then kind (f (socketTable w s)) else kind (socketTable w t))"
  by (simp add: updSocket_def)

lemma connect_kinds:
  assumes "connect env config sid conn w = (Inr u, conn', w')"
  shows "kind (socketTable w' (socketCount w)) = Dealer"
    and "kind (socketTable w' (socketCount w + 1)) = Dealer"
    and "kind (socketTable w' (socketCount w + 2)) = Dealer"
    and "kind (socketTable w' (socketCount w + 3)) = Subscriber"
  unfolding connect_success(2) [OF assms]
  by (simp_all add: updSocket_kind createSubscriber_kind createDealer_kind createDealer_count)

lemma connect_sendCalls:
  assumes "connect env config sid conn w = (Inr u, conn', w')"
  shows "sendCalls (socketTable w' (socketCount w + 3)) = []"
  unfolding connect_success(2) [OF assms]
  by (simp add: updSocket_def createSubscriber_sendCalls createDealer_count)

lemma sendTarget_Some:
  "sendTarget w v = Some t \<longleftrightarrow> v = SocketObj t \<and> kind (socketTable w t) = Dealer"
  by (cases v) auto

lemma foldHeader_socketTable:
  "socketTable (snd (foldHeader filler msgHeader w)) = socketTable w"
  by (simp add: foldHeader_world)

lemma trySend_kind:
  "kind (socketTable (snd (trySend env wp socket filler m w)) s) = kind (socketTable w s)"
  by (simp add: trySend_snd jMessageOf_snd foldHeader_world updSocket_def Let_def
      split: option.splits sum.splits)

lemma trySend_closeCalls:
  "closeCalls (socketTable (snd (trySend env wp socket filler m w)) s) = closeCalls (socketTable w s)"
  by (simp add: trySend_snd jMessageOf_snd foldHeader_world updSocket_def Let_def
      split: option.splits sum.splits)

lemma trySend_sendCalls_Subscriber:
  "kind (socketTable w s) = Subscriber \<Longrightarrow>
   sendCalls (socketTable (snd (trySend env wp socket filler m w)) s) = sendCalls (socketTable w s)"
  by (auto simp add: trySend_snd jMessageOf_snd foldHeader_world updSocket_def Let_def sendTarget_Some
      split: option.splits sum.splits)

lemma outgoingMessages_kind:
  "kind (socketTable (snd (outgoingMessages env wp ss filler message w)) s) = kind (socketTable w s)"
  by (simp add: outgoingMessages_snd warn_def traceError_def trySend_kind
      split: option.splits sum.splits)

lemma outgoingMessages_closeCalls:
  "closeCalls (socketTable (snd (outgoingMessages env wp ss filler message w)) s)
     = closeCalls (socketTable w s)"
  by (simp add: outgoingMessages_snd warn_def traceError_def trySend_closeCalls
      split: option.splits sum.splits)

lemma outgoingMessages_sendCalls_Subscriber:
  "kind (socketTable w s) = Subscriber \<Longrightarrow>
   sendCalls (socketTable (snd (outgoingMessages env wp ss filler message w)) s)
     = sendCalls (socketTable w s)"
  by (simp add: outgoingMessages_snd warn_def traceError_def trySend_sendCalls_Subscriber
      split: option.splits sum.splits)

lemma sendMessage_fst: "fst (sendMessage env wp m conn w) = conn"
  by (cases conn) (simp add: sendMessage_def subject_next_def split: option.splits)

lemma sendMessage_snd:
  "snd (sendMessage env wp m conn w) =
     (case mainChannel conn of
        None \<Rightarrow> w
      | Some ch \<Rightarrow>
          if destinationStopped ch then w
          else snd (outgoingMessages env wp (sockets ch) (headerFiller ch) (Some m) w))"
  by (simp add: sendMessage_def subject_next_def split: option.splits)

lemma sendMessage_kind:
  "kind (socketTable (snd (sendMessage env wp m conn w)) s) = kind (socketTable w s)"
  by (simp add: sendMessage_snd outgoingMessages_kind split: option.splits)

lemma sendMessage_sendCalls_Subscriber:
  "kind (socketTable w s) = Subscriber \<Longrightarrow>
   sendCalls (socketTable (snd (sendMessage env wp m conn w)) s) = sendCalls (socketTable w s)"
  by (simp add: sendMessage_snd outgoingMessages_sendCalls_Subscriber split: option.splits)

lemma sendMessages_Subscriber:
  "kind (socketTable w s) = Subscriber \<Longrightarrow>
   kind (socketTable (snd (sendMessages env wp ms conn w)) s) = Subscriber
   \<and> sendCalls (socketTable (snd (sendMessages env wp ms conn w)) s) = sendCalls (socketTable w s)"
proof (induction ms arbitrary: conn w)
  case Nil
  then show ?case by simp
next
  case (Cons m ms)
  obtain c1 w1 where s: "sendMessage env wp m conn w = (c1, w1)"
    by (cases "sendMessage env wp m conn w")
  then have w1: "w1 = snd (sendMessage env wp m conn w)" by simp
  have k: "kind (socketTable w1 s) = Subscriber"
    unfolding w1 using Cons.prems by (simp add: sendMessage_kind)
  have c: "sendCalls (socketTable w1 s) = sendCalls (socketTable w s)"
    unfolding w1 using Cons.prems by (rule sendMessage_sendCalls_Subscriber)
  show ?case using Cons.IH [OF k, of c1] s c by simp
qed


lemma trySend_fst:
  "fst (trySend env wp socket filler m w) =
     (let w1 = snd (jMessageOf filler m w)
      in case sendTarget w1 socket of
           None \<Rightarrow> Inr ()
         | Some s \<Rightarrow>
             (case encode wp (headerHeap w1) (fst (jMessageOf filler m w)) of
                Inl e \<Rightarrow> Inl e
              | Inr fr \<Rightarrow> (case sendFails env s fr of Some e \<Rightarrow> Inl e | None \<Rightarrow> Inr ())))"
  by (simp add: trySend_def case_prod_beta send_def Let_def split: option.splits sum.splits)

lemma jMessageOf_socketTable:
  "socketTable (snd (jMessageOf filler m w)) = socketTable w"
  by (simp add: jMessageOf_snd foldHeader_world)

lemma sendTarget_jMessageOf:
  "sendTarget (snd (jMessageOf filler m w)) socket = sendTarget w socket"
  by (cases socket) (simp_all add: jMessageOf_socketTable)

lemma lookupSocket_four:
  "lookupSocket [(''shell'', a), (''control'', b), (''stdin'', c), (''iopub'', d)] ''iopub''
     = Some (SocketObj d)"
  by (simp add: lookupSocket_def)

text \<open>
  C7.  After a successful \<^verbatim>\<open>connect\<close> the Socket Set holds exactly the four keys
  \<open>shell\<close>, \<open>control\<close>, \<open>stdin\<close>, \<open>iopub\<close>, bound to four distinct sockets, three
  dealers and one subscriber.  The iopub socket is never sent on, whatever sequence of
  messages is pushed; a push to \<open>iopub\<close> leaves the sockets, the log and the messages
  as they are and does not fail.
\<close>

theorem C7_socket_set_and_iopub:
  assumes "connect env config sessionID conn w = (Inr u, conn', w')"
  shows "\<exists>ch shell control stdin iopub.
           mainChannel conn' = Some ch
         \<and> sockets ch = [(''shell'', shell), (''control'', control), (''stdin'', stdin), (''iopub'', iopub)]
         \<and> distinct [shell, control, stdin, iopub]
         \<and> kind (socketTable w' shell) = Dealer
         \<and> kind (socketTable w' control) = Dealer
         \<and> kind (socketTable w' stdin) = Dealer
         \<and> kind (socketTable w' iopub) = Subscriber
         \<and> (\<forall>env' wp ms. sendCalls (socketTable (snd (sendMessages env' wp ms conn' w')) iopub) = [])
         \<and> (\<forall>env' wp m. channel (messageHeap w' m) = Some ''iopub'' \<longrightarrow>
                fst (sendMessage env' wp m conn' w') = conn'
              \<and> socketTable (snd (sendMessage env' wp m conn' w')) = socketTable w'
              \<and> consoleLog (snd (sendMessage env' wp m conn' w')) = consoleLog w'
              \<and> messageHeap (snd (sendMessage env' wp m conn' w')) = messageHeap w')"
proof -
  let ?ss = "[(''shell'', socketCount w), (''control'', socketCount w + 1),
              (''stdin'', socketCount w + 2), (''iopub'', socketCount w + 3)]"
  let ?ch = "createMainChannelFromSockets ?ss \<lparr>session = uuid env, username = getUsername env\<rparr>"
  have mc: "mainChannel conn' = Some ?ch" by (rule connect_success(1) [OF assms])
  note k = connect_kinds [OF assms]
  have sc: "sendCalls (socketTable w' (socketCount w + 3)) = []" by (rule connect_sendCalls [OF assms])
  have never: "\<forall>env' wp ms. sendCalls (socketTable (snd (sendMessages env' wp ms conn' w')) (socketCount w + 3)) = []"
    using sendMessages_Subscriber [OF k(4)] sc by simp
  have noop: "\<forall>env' wp m. channel (messageHeap w' m) = Some ''iopub'' \<longrightarrow>
                fst (sendMessage env' wp m conn' w') = conn'
              \<and> socketTable (snd (sendMessage env' wp m conn' w')) = socketTable w'
              \<and> consoleLog (snd (sendMessage env' wp m conn' w')) = consoleLog w'
              \<and> messageHeap (snd (sendMessage env' wp m conn' w')) = messageHeap w'"
  proof (intro allI impI)
    fix env' wp m
    assume c: "channel (messageHeap w' m) = Some ''iopub''"
    have t: "sendTarget (snd (jMessageOf (headerFiller ?ch) m w')) (SocketObj (socketCount w + 3)) = None"
      using k(4) by (simp add: jMessageOf_socketTable)
    have o: "snd (outgoingMessages env' wp ?ss (headerFiller ?ch) (Some m) w')
               = snd (jMessageOf (headerFiller ?ch) m w')"
      using c t by (simp add: outgoingMessages_snd lookupSocket_four trySend_fst trySend_snd)
    have s: "snd (sendMessage env' wp m conn' w') = snd (jMessageOf (headerFiller ?ch) m w')"
      using o by (simp add: sendMessage_snd mc createMainChannelFromSockets_def)
    show "fst (sendMessage env' wp m conn' w') = conn'
              \<and> socketTable (snd (sendMessage env' wp m conn' w')) = socketTable w'
              \<and> consoleLog (snd (sendMessage env' wp m conn' w')) = consoleLog w'
              \<and> messageHeap (snd (sendMessage env' wp m conn' w')) = messageHeap w'"
      unfolding s by (simp add: sendMessage_fst jMessageOf_snd foldHeader_world)
  qed
  have "mainChannel conn' = Some ?ch
         \<and> sockets ?ch = ?ss
         \<and> distinct [socketCount w, socketCount w + 1, socketCount w + 2, socketCount w + 3]"
    using mc by (simp add: createMainChannelFromSockets_def)
  then show ?thesis using k never noop by blast
qed

text \<open>
  C6.  For every pushed message the promise of the callback is fulfilled, never
  rejected, and the subject is left as it was.  When the codec's \<open>encode\<close> or the
  socket's \<open>send\<close> fails, the error is logged together with the failing message.
\<close>

theorem C6_push_never_throws:
  "fst (outgoingMessages env wp ss filler message w) = Fulfilled
   \<and> fst (subject_next env wp message ch w) = ch
   \<and> (\<forall>m c s e.
         message = Some m \<and> channel (messageHeap w m) = Some c \<and> c \<noteq> []
         \<and> lookupSocket ss c = Some (SocketObj s) \<and> kind (socketTable w s) = Dealer
         \<and> (encode wp (headerHeap (snd (jMessageOf filler m w))) (fst (jMessageOf filler m w)) = Inl e
            \<or> (\<exists>fr. encode wp (headerHeap (snd (jMessageOf filler m w))) (fst (jMessageOf filler m w)) = Inr fr
                    \<and> sendFails env s fr = Some e))
       \<longrightarrow> consoleLog (snd (outgoingMessages env wp ss filler message w))
             = consoleLog w @ [TraceError ''Error sending message'' e m])"
proof -
  have a: "fst (outgoingMessages env wp ss filler message w) = Fulfilled"
    by (rule outgoingMessages_fst)
  have b: "fst (subject_next env wp message ch w) = ch"
    by (simp add: subject_next_def)
  have c: "\<forall>m c s e.
         message = Some m \<and> channel (messageHeap w m) = Some c \<and> c \<noteq> []
         \<and> lookupSocket ss c = Some (SocketObj s) \<and> kind (socketTable w s) = Dealer
         \<and> (encode wp (headerHeap (snd (jMessageOf filler m w))) (fst (jMessageOf filler m w)) = Inl e
            \<or> (\<exists>fr. encode wp (headerHeap (snd (jMessageOf filler m w))) (fst (jMessageOf filler m w)) = Inr fr
                    \<and> sendFails env s fr = Some e))
       \<longrightarrow> consoleLog (snd (outgoingMessages env wp ss filler message w))
             = consoleLog w @ [TraceError ''Error sending message'' e m]"
  proof (intro allI impI, elim conjE)
    fix m c s e
    assume h: "message = Some m" "channel (messageHeap w m) = Some c" "c \<noteq> []"
      "lookupSocket ss c = Some (SocketObj s)" "kind (socketTable w s) = Dealer"
      and f: "encode wp (headerHeap (snd (jMessageOf filler m w))) (fst (jMessageOf filler m w)) = Inl e
            \<or> (\<exists>fr. encode wp (headerHeap (snd (jMessageOf filler m w))) (fst (jMessageOf filler m w)) = Inr fr
                    \<and> sendFails env s fr = Some e)"
    have t: "sendTarget (snd (jMessageOf filler m w)) (SocketObj s) = Some s"
      using h(5) by (simp add: jMessageOf_socketTable)
    have r: "fst (trySend env wp (SocketObj s) filler m w) = Inl e"
      using f t by (auto simp add: trySend_fst)
    show "consoleLog (snd (outgoingMessages env wp ss filler message w))
             = consoleLog w @ [TraceError ''Error sending message'' e m]"
      using h r by (simp add: outgoingMessages_snd traceError_def trySend_consoleLog)
  qed
  from a b c show ?thesis by blast
qed

lemma outgoingMessages_unroutable:
  assumes "message = None
         \<or> (\<exists>m. message = Some m
               \<and> (channel (messageHeap w m) = None
                  \<or> channel (messageHeap w m) = Some []
                  \<or> (\<exists>c. channel (messageHeap w m) = Some c \<and> map_of ss c = None
                          \<and> c \<notin> set objectPrototypeKeys)))"
  shows "\<exists>text. outgoingMessages env wp ss filler message w
           = (Fulfilled, w\<lparr>consoleLog := consoleLog w @ [Warn text message]\<rparr>)"
  using assms
  by (auto simp add: outgoingMessages_def warn_def lookupSocket_def split: option.splits)

lemma outgoingMessages_inherited:
  assumes "channel (messageHeap w m) = Some c" "map_of ss c = None" "c \<in> set objectPrototypeKeys"
  shows "consoleLog (snd (outgoingMessages env wp ss filler (Some m) w)) = consoleLog w"
    and "socketTable (snd (outgoingMessages env wp ss filler (Some m) w)) = socketTable w"
proof -
  have n: "c \<noteq> []" using assms(3) by (auto simp add: objectPrototypeKeys_def)
  have l: "lookupSocket ss c = Some (PrototypeMember c)"
    using assms by (simp add: lookupSocket_def)
  show "consoleLog (snd (outgoingMessages env wp ss filler (Some m) w)) = consoleLog w"
    using assms(1) n l
    by (simp add: outgoingMessages_snd trySend_fst trySend_snd jMessageOf_snd foldHeader_world)
  show "socketTable (snd (outgoingMessages env wp ss filler (Some m) w)) = socketTable w"
    using assms(1) n l
    by (simp add: outgoingMessages_snd trySend_fst trySend_snd jMessageOf_snd foldHeader_world)
qed


lemma createDealer_frame:
  "messageHeap (snd (createDealer env chan identity config w)) = messageHeap w
   \<and> headerHeap (snd (createDealer env chan identity config w)) = headerHeap w
   \<and> headerCount (snd (createDealer env chan identity config w)) = headerCount w
   \<and> consoleLog (snd (createDealer env chan identity config w)) = consoleLog w
   \<and> delivered (snd (createDealer env chan identity config w)) = delivered w"
  by (simp add: createDealer_def newSocket_def bind_def updSocket_def split: sum.splits)

lemma createSubscriber_frame:
  "messageHeap (snd (createSubscriber env chan config w)) = messageHeap w
   \<and> headerHeap (snd (createSubscriber env chan config w)) = headerHeap w
   \<and> headerCount (snd (createSubscriber env chan config w)) = headerCount w
   \<and> consoleLog (snd (createSubscriber env chan config w)) = consoleLog w
   \<and> delivered (snd (createSubscriber env chan config w)) = delivered w"
  by (simp add: createSubscriber_def newSocket_def bind_def updSocket_def split: sum.splits)

lemma connect_frame:
  assumes "connect env config sid conn w = (Inr u, conn', w')"
  shows "messageHeap w' = messageHeap w" "headerHeap w' = headerHeap w"
    "headerCount w' = headerCount w" "consoleLog w' = consoleLog w" "delivered w' = delivered w"
  unfolding connect_success(2) [OF assms]
  by (simp_all add: updSocket_def createDealer_frame createSubscriber_frame)

lemma connect_closeCalls:
  assumes "connect env config sid conn w = (Inr u, conn', w')"
  shows "closeCalls (socketTable w' s) =
           (if socketCount w \<le> s \<and> s < socketCount w + 4 then 0 else closeCalls (socketTable w s))"
  unfolding connect_success(2) [OF assms]
  by (auto simp add: updSocket_def createSubscriber_closeCalls createDealer_closeCalls
      createDealer_count)

lemma getUsername_quietEnv: "getUsername quietEnv = ''ada''"
  by (simp add: getUsername_def quietEnv_def)

lemma connect_fst:
  "fst (connect env config sid conn w) =
     (case fst (createSockets env config [] sid w) of Inl e \<Rightarrow> Inl e | Inr ss \<Rightarrow> Inr ())"
  by (simp add: connect_def createMainChannel_def split: prod.splits sum.splits)

lemma uuid_quietEnv: "uuid quietEnv = ''uuid-1''"
  by (simp add: quietEnv_def)

lemma connected_fst: "fst connected = Inr ()"
  by (simp add: connected_def connect_fst createSockets_fst Let_def
      createDealer_fst createSubscriber_fst formConnectionString_def falsyPort_def portString_def
      exampleConfig_def quietEnv_def)

lemma connected_eq:
  "connect quietEnv exampleConfig ''sid'' \<lparr>mainChannel = None\<rparr> sampleWorld
     = (Inr (), connectedConn, connectedWorld)"
  using connected_fst
  by (simp add: connectedConn_def connectedWorld_def connected_def prod_eq_iff)

lemma sampleWorld_socketCount: "socketCount sampleWorld = 0"
  by (simp add: sampleWorld_def emptyWorld_def)

lemma connectedConn_mainChannel: "mainChannel connectedConn = Some connectedChannels"
  using connect_success(1) [OF connected_eq]
  by (simp add: sampleWorld_socketCount createMainChannelFromSockets_def connectedChannels_def
      getUsername_quietEnv uuid_quietEnv)

lemma connectedWorld_heap:
  "messageHeap connectedWorld = messageHeap sampleWorld"
  "headerHeap connectedWorld = headerHeap sampleWorld"
  "headerCount connectedWorld = 1"
  "consoleLog connectedWorld = []"
  "delivered connectedWorld = []"
  using connect_frame [OF connected_eq]
  by (simp_all add: sampleWorld_def emptyWorld_def)

lemma connectedWorld_kinds:
  "kind (socketTable connectedWorld 0) = Dealer"
  "kind (socketTable connectedWorld 1) = Dealer"
  "kind (socketTable connectedWorld 2) = Dealer"
  "kind (socketTable connectedWorld 3) = Subscriber"
  using connect_kinds [OF connected_eq] by (simp_all add: sampleWorld_socketCount numeral_2_eq_2)

lemma connectedWorld_closeCalls:
  "closeCalls (socketTable connectedWorld 0) = 0"
  "closeCalls (socketTable connectedWorld 1) = 0"
  "closeCalls (socketTable connectedWorld 2) = 0"
  "closeCalls (socketTable connectedWorld 3) = 0"
  using connect_closeCalls [OF connected_eq] by (simp_all add: sampleWorld_socketCount)

lemma sampleMessages:
  "messageHeap sampleWorld 0 = emptyMessage\<lparr>header := Some 0, content := JStr ''X'',
                                      channel := Some ''shell'',
                                      extra := [''idents'' \<mapsto> JArr [JStr ''r'']]\<rparr>"
  "messageHeap sampleWorld (Suc 0) = emptyMessage\<lparr>channel := Some ''toString''\<rparr>"
  "messageHeap sampleWorld 2 = emptyMessage\<lparr>channel := Some ''iopub''\<rparr>"
  "messageHeap sampleWorld 3 = emptyMessage\<lparr>channel := Some ''bogus''\<rparr>"
  by (simp_all add: sampleWorld_def emptyWorld_def)


lemma connectedChannels_simps:
  "sockets connectedChannels = [(''shell'', 0), (''control'', 1), (''stdin'', 2), (''iopub'', 3)]"
  "headerFiller connectedChannels = \<lparr>session = ''uuid-1'', username = ''ada''\<rparr>"
  "destinationStopped connectedChannels = False"
  "observers connectedChannels = []"
  "sourceError connectedChannels = None"
  by (simp_all add: connectedChannels_def)

theorem C10_push_does_not_mutate_witness:
  "messageHeap (snd (outgoingMessages quietEnv sampleProtocol (sockets connectedChannels)
        (headerFiller connectedChannels) (Some 0) connectedWorld)) = messageHeap connectedWorld
   \<and> headerHeap (snd (outgoingMessages quietEnv sampleProtocol (sockets connectedChannels)
        (headerFiller connectedChannels) (Some 0) connectedWorld)) 0 = sampleHeader
   \<and> extra (messageHeap connectedWorld 0) ''idents'' = Some (JArr [JStr ''r''])
   \<and> raw_idents (fst (jMessageOf (headerFiller connectedChannels) 0 connectedWorld)) = []"
proof -
  note t = C10_push_does_not_mutate [of quietEnv sampleProtocol "sockets connectedChannels"
      "headerFiller connectedChannels" "Some 0" connectedWorld 0]
  have a: "(0::nat) < headerCount connectedWorld" by (simp add: connectedWorld_heap)
  have h: "headerHeap connectedWorld 0 = sampleHeader"
    by (simp add: connectedWorld_heap sampleWorld_def emptyWorld_def)
  have e: "extra (messageHeap connectedWorld 0) ''idents'' = Some (JArr [JStr ''r''])"
    by (simp add: connectedWorld_heap sampleMessages)
  from t [THEN conjunct1] t [THEN conjunct2, THEN conjunct1, rule_format, OF a]
    t [THEN conjunct2, THEN conjunct2, THEN conjunct1] h e
  show ?thesis by simp
qed

theorem C6_push_never_throws_witness:
  "fst (outgoingMessages (quietEnv\<lparr>sendFails := (\<lambda>s fr. Some (Error ''EAGAIN''))\<rparr>) sampleProtocol
         (sockets connectedChannels) (headerFiller connectedChannels) (Some 0) connectedWorld) = Fulfilled
   \<and> consoleLog (snd (outgoingMessages (quietEnv\<lparr>sendFails := (\<lambda>s fr. Some (Error ''EAGAIN''))\<rparr>)
         sampleProtocol (sockets connectedChannels) (headerFiller connectedChannels) (Some 0)
         connectedWorld))
       = [TraceError ''Error sending message'' (Error ''EAGAIN'') 0]"
proof -
  let ?env = "quietEnv\<lparr>sendFails := (\<lambda>s fr. Some (Error ''EAGAIN''))\<rparr>"
  note t = C6_push_never_throws [of ?env sampleProtocol "sockets connectedChannels"
      "headerFiller connectedChannels" "Some 0" connectedWorld connectedChannels]
  have c: "channel (messageHeap connectedWorld 0) = Some ''shell''"
    by (simp add: connectedWorld_heap sampleMessages)
  have l: "lookupSocket (sockets connectedChannels) ''shell'' = Some (SocketObj 0)"
    by (simp add: connectedChannels_simps lookupSocket_def)
  have e: "encode sampleProtocol
             (headerHeap (snd (jMessageOf (headerFiller connectedChannels) 0 connectedWorld)))
             (fst (jMessageOf (headerFiller connectedChannels) 0 connectedWorld))
           = Inr [''<IDS|MSG>'', ''uuid-1'']"
    by (simp add: sampleProtocol_def sessionEncode_def jMessageOf_fst jMessageOf_snd
        foldHeader_world connectedChannels_simps)
  have f: "sendFails ?env 0 [''<IDS|MSG>'', ''uuid-1''] = Some (Error ''EAGAIN'')"
    by simp
  from t [THEN conjunct2, THEN conjunct2, rule_format, of 0 "''shell''" 0 "Error ''EAGAIN''"]
    c l e f connectedWorld_kinds(1)
  have "consoleLog (snd (outgoingMessages ?env sampleProtocol (sockets connectedChannels)
          (headerFiller connectedChannels) (Some 0) connectedWorld))
        = consoleLog connectedWorld @ [TraceError ''Error sending message'' (Error ''EAGAIN'') 0]"
    by simp
  with t [THEN conjunct1] show ?thesis by (simp add: connectedWorld_heap)
qed

theorem C7_socket_set_and_iopub_witness:
  "connect quietEnv exampleConfig ''sid'' \<lparr>mainChannel = None\<rparr> sampleWorld
     = (Inr (), connectedConn, connectedWorld)
   \<and> sockets connectedChannels = [(''shell'', 0), (''control'', 1), (''stdin'', 2), (''iopub'', 3)]
   \<and> kind (socketTable connectedWorld 3) = Subscriber
   \<and> sendCalls (socketTable (snd (sendMessages quietEnv sampleProtocol [2, 0, 2]
         connectedConn connectedWorld)) 3) = []
   \<and> consoleLog (snd (sendMessage quietEnv sampleProtocol 2 connectedConn connectedWorld)) = []"
proof -
  from C7_socket_set_and_iopub [OF connected_eq]
  obtain ch shell control stdin iopub where
    mc: "mainChannel connectedConn = Some ch"
    and ss: "sockets ch = [(''shell'', shell), (''control'', control), (''stdin'', stdin), (''iopub'', iopub)]"
    and k: "kind (socketTable connectedWorld iopub) = Subscriber"
    and never: "\<forall>env' wp ms. sendCalls (socketTable (snd (sendMessages env' wp ms connectedConn connectedWorld)) iopub) = []"
    and noop: "\<forall>env' wp m. channel (messageHeap connectedWorld m) = Some ''iopub'' \<longrightarrow>
                fst (sendMessage env' wp m connectedConn connectedWorld) = connectedConn
              \<and> socketTable (snd (sendMessage env' wp m connectedConn connectedWorld)) = socketTable connectedWorld
              \<and> consoleLog (snd (sendMessage env' wp m connectedConn connectedWorld)) = consoleLog connectedWorld
              \<and> messageHeap (snd (sendMessage env' wp m connectedConn connectedWorld)) = messageHeap connectedWorld"
    by blast
  have i: "iopub = 3"
    using mc ss by (auto simp add: connectedConn_mainChannel connectedChannels_def)
  have c: "channel (messageHeap connectedWorld 2) = Some ''iopub''"
    by (simp add: connectedWorld_heap sampleMessages)
  from noop [rule_format, OF c, of quietEnv sampleProtocol] never [rule_format, of quietEnv sampleProtocol "[2, 0, 2]"]
    k i connected_eq
  show ?thesis by (simp add: connectedChannels_simps connectedWorld_heap)
qed

text \<open>
  C5.  A message whose channel is missing, empty or unknown is dropped with a warning
  (\<open>outgoingMessages_unroutable\<close>), unless the channel names a member that the socket
  object inherits from \<^verbatim>\<open>Object.prototype\<close>: \<open>toString\<close> names no socket of the
  Socket Set, yet the push logs nothing, while \<open>bogus\<close> is warned about.
\<close>

theorem C5_inherited_channel_name:
  "mainChannel connectedConn = Some connectedChannels
   \<and> map_of (sockets connectedChannels) ''toString'' = None
   \<and> channel (messageHeap connectedWorld 1) = Some ''toString''
   \<and> consoleLog connectedWorld = []
   \<and> consoleLog (snd (subject_next quietEnv sampleProtocol (Some 1) connectedChannels connectedWorld)) = []
   \<and> socketTable (snd (subject_next quietEnv sampleProtocol (Some 1) connectedChannels connectedWorld))
       = socketTable connectedWorld
   \<and> channel (messageHeap connectedWorld 3) = Some ''bogus''
   \<and> consoleLog (snd (subject_next quietEnv sampleProtocol (Some 3) connectedChannels connectedWorld))
       = [Warn ''channel not understood for message'' (Some 3)]"
proof -
  have c1: "channel (messageHeap connectedWorld 1) = Some ''toString''"
    and c3: "channel (messageHeap connectedWorld 3) = Some ''bogus''"
    by (simp_all add: connectedWorld_heap sampleMessages)
  have m: "map_of (sockets connectedChannels) ''toString'' = None"
    by (simp add: connectedChannels_simps)
  have p: "''toString'' \<in> set objectPrototypeKeys"
    by (simp add: objectPrototypeKeys_def)
  note i = outgoingMessages_inherited [OF c1 m p, of quietEnv sampleProtocol "headerFiller connectedChannels"]
  have b: "lookupSocket (sockets connectedChannels) ''bogus'' = None"
    by (simp add: connectedChannels_simps lookupSocket_def objectPrototypeKeys_def)
  have w: "consoleLog (snd (outgoingMessages quietEnv sampleProtocol (sockets connectedChannels)
             (headerFiller connectedChannels) (Some 3) connectedWorld))
           = [Warn ''channel not understood for message'' (Some 3)]"
    using c3 b by (simp add: outgoingMessages_snd warn_def connectedWorld_heap)
  show ?thesis
    using i w c1 c3 m
    by (simp add: subject_next_def connectedConn_mainChannel connectedChannels_simps connectedWorld_heap)
qed

section \<open>Disposal and the inbound path\<close>

lemma dispose_world: "snd (dispose conn w) = w"
  by (simp add: dispose_def subject_unsubscribe_def split: option.splits)

lemma dispose_conn:
  "fst (dispose conn w) =
     (case mainChannel conn of None \<Rightarrow> conn | Some ch \<Rightarrow> conn\<lparr>mainChannel := Some (ch\<lparr>closed := True\<rparr>)\<rparr>)"
  by (simp add: dispose_def subject_unsubscribe_def split: option.splits)

lemma dispose_idempotent:
  "dispose (fst (dispose conn w)) (snd (dispose conn w)) = dispose conn w"
  by (cases conn) (simp add: dispose_def subject_unsubscribe_def split: option.splits)

lemma incomingMessage_eq:
  "incomingMessage wp name body = decode wp ((body(''channel'' \<mapsto> JStr name))(''idents'' := None))"
  by (simp add: incomingMessage_def)

lemma socketEvent_alive:
  assumes "map_of (sockets ch) name \<noteq> None" "observers ch \<noteq> []" "incomingMessage wp name body = Inr msg"
  shows "socketEvent wp name body ch w
           = (ch, w\<lparr>delivered := delivered w @ map (\<lambda>h. (h, msg)) (observers ch)\<rparr>)"
  using assms by (auto simp add: socketEvent_def)

lemma socketEvents_order:
  assumes "observers ch \<noteq> []"
    and "\<forall>(name, body) \<in> set evs. map_of (sockets ch) name \<noteq> None
           \<and> (\<exists>msg. incomingMessage wp name body = Inr msg)"
  shows "fst (socketEvents wp evs ch w) = ch
       \<and> delivered (snd (socketEvents wp evs ch w)) =
           delivered w @ concat (map (\<lambda>(name, body).
              case incomingMessage wp name body of
                Inl e \<Rightarrow> []
              | Inr msg \<Rightarrow> map (\<lambda>h. (h, msg)) (observers ch)) evs)"
  using assms
proof (induction evs arbitrary: w)
  case Nil
  then show ?case by simp
next
  case (Cons ev evs)
  obtain name body where ev: "ev = (name, body)" by (cases ev)
  from Cons.prems(2) ev obtain msg where
    n: "map_of (sockets ch) name \<noteq> None" and m: "incomingMessage wp name body = Inr msg"
    by auto
  have rest: "\<forall>(name, body) \<in> set evs. map_of (sockets ch) name \<noteq> None
           \<and> (\<exists>msg. incomingMessage wp name body = Inr msg)"
    using Cons.prems(2) by simp
  note step = socketEvent_alive [OF n Cons.prems(1) m]
  show ?case
    using Cons.IH [OF Cons.prems(1) rest, of "w\<lparr>delivered := delivered w @ map (\<lambda>h. (h, msg)) (observers ch)\<rparr>"]
    by (simp add: ev step m)
qed


lemma closeSockets_four:
  "distinct [a, b, c, d] \<Longrightarrow>
   closeCalls (socketTable (closeSockets [(''shell'', a), (''control'', b), (''stdin'', c), (''iopub'', d)] w) s)
     = (if s \<in> {a, b, c, d} then Suc (closeCalls (socketTable w s)) else closeCalls (socketTable w s))"
  by (auto simp add: closeSockets_def updSocket_def)


lemma disposedTwice_eq:
  "disposedTwice =
     (connectedConn\<lparr>mainChannel := Some (connectedChannels\<lparr>closed := True, observers := [7]\<rparr>)\<rparr>,
      connectedWorld)"
  by (simp add: disposedTwice_def dispose_def subscribe_def subject_subscribe_def
      subject_unsubscribe_def connectedConn_mainChannel connectedChannels_def)

text \<open>
  C2.  \<^verbatim>\<open>dispose()\<close> calls \<^verbatim>\<open>unsubscribe()\<close> on the subject, which sets a flag and
  never runs the completion callback: after two calls each of the four sockets has been
  closed zero times, and a raw event on \<open>iopub\<close> is still published to the handler
  subscribed before.  The callback itself does close each socket once when the subject
  is completed.  (Disposal is idempotent: \<open>dispose_idempotent\<close>.)
\<close>

theorem C2_dispose_twice:
  "mainChannel (fst disposedTwice) = Some (connectedChannels\<lparr>closed := True, observers := [7]\<rparr>)
   \<and> closeCalls (socketTable (snd disposedTwice) 0) = 0
   \<and> closeCalls (socketTable (snd disposedTwice) 1) = 0
   \<and> closeCalls (socketTable (snd disposedTwice) 2) = 0
   \<and> closeCalls (socketTable (snd disposedTwice) 3) = 0
   \<and> map fst (delivered (snd (socketEvent sampleProtocol ''iopub'' sampleFrames
        (connectedChannels\<lparr>closed := True, observers := [7]\<rparr>) (snd disposedTwice)))) = [7]
   \<and> closeCalls (socketTable (snd (subject_complete connectedChannels connectedWorld)) 3) = 1"
proof -
  have d: "map fst (delivered (snd (socketEvent sampleProtocol ''iopub'' sampleFrames
        (connectedChannels\<lparr>closed := True, observers := [7]\<rparr>) connectedWorld))) = [7]"
    by (simp add: socketEvent_def connectedChannels_def incomingMessage_def sampleProtocol_def
        frameDecode_def connectedWorld_heap Let_def)
  have c: "closeCalls (socketTable (snd (subject_complete connectedChannels connectedWorld)) 3) = 1"
    by (simp add: subject_complete_def connectedChannels_def closeSockets_four connectedWorld_closeCalls)
  show ?thesis
    using d c connectedWorld_closeCalls by (simp add: disposedTwice_eq)
qed

text \<open>
  C3.  The code stamps the raw body with the channel and deletes \<open>idents\<close> from
  it, and only then decodes; what is published is whatever the decoder returns.  With
  a decoder that builds a \<^verbatim>\<open>RawJupyterMessage\<close> from the frames, the message
  published for an \<open>iopub\<close> event has no \<open>channel\<close> and carries \<open>idents\<close>; decoding
  first and stamping afterwards, as the claim words it, gives \<open>channel = iopub\<close> and
  no \<open>idents\<close>.
\<close>

theorem C3_stamp_before_decode:
  "map_sum id (\<lambda>m. (m ''channel'', m ''idents'', m ''content''))
     (incomingMessage sampleProtocol ''iopub'' sampleFrames)
     = Inr (None, Some (JArr [JStr ''routing-id'']), Some (JStr ''{content}''))
   \<and> map_sum id (\<lambda>m. (m ''channel'', m ''idents'', m ''content''))
     (spec_incomingMessage sampleProtocol ''iopub'' sampleFrames)
     = Inr (Some (JStr ''iopub''), None, Some (JStr ''{content}''))
   \<and> map (\<lambda>(h, m). (h, m ''channel'', m ''idents''))
       (delivered (snd (socketEvent sampleProtocol ''iopub'' sampleFrames
          (subject_subscribe 7 connectedChannels) connectedWorld)))
     = [(7, None, Some (JArr [JStr ''routing-id'']))]"
  by (simp add: incomingMessage_def spec_incomingMessage_def sampleProtocol_def frameDecode_def
      frameOf_def sampleFrames_def socketEvent_def subject_subscribe_def connectedChannels_def
      connectedWorld_heap Let_def)

text \<open>
  C9.  Published messages keep the arrival order of the raw events
  (\<open>socketEvents_order\<close>), so two events on one channel stay in order and events on
  two channels both appear.  The tag is another matter: with the sample decoder an
  event on \<open>shell\<close> followed by one on \<open>iopub\<close> is published as two messages in
  that order, neither of which carries a \<open>channel\<close>.
\<close>

theorem C9_channel_tags_lost:
  "map (\<lambda>(h, m). (h, m ''channel'', m ''content''))
       (delivered (snd (socketEvents sampleProtocol
          [(''shell'', sampleFrames), (''iopub'', sampleFrames(''4'' \<mapsto> JStr ''{second}''))]
          (subject_subscribe 7 connectedChannels) connectedWorld)))
     = [(7, None, Some (JStr ''{content}'')), (7, None, Some (JStr ''{second}''))]"
  by (simp add: incomingMessage_def sampleProtocol_def frameDecode_def
      frameOf_def sampleFrames_def socketEvent_def subject_subscribe_def connectedChannels_def
      connectedWorld_heap Let_def)

end
